theory Spec2Isabelle
  imports Main "HOL-Library.Word"
begin

unbundle bit_operations_syntax

section \<open>The KXN virtual machine (vm.h, vm.c)\<close>

text \<open>
  The machine state of \<^verbatim>\<open>vm.h\<close>: \<^verbatim>\<open>uint8_t memory[65536]\<close> indexed by 16-bit
  addresses, three 16-bit registers, the running flag and the error slot.  Every index the
  engine computes is below 65536 (a \<^verbatim>\<open>uint16_t\<close>, or \<^verbatim>\<open>addr + 1\<close> behind the
  \<^verbatim>\<open>addr >= VM_MEMORY_SIZE - 1\<close> guard), so the array is a total function on
  \<open>16 word\<close>.
\<close>

datatype vm_error_t =
    VM_OK
  | VM_ERROR_STACK_OVERFLOW
  | VM_ERROR_STACK_UNDERFLOW
  | VM_ERROR_INVALID_OPCODE
  | VM_ERROR_DIVISION_BY_ZERO
  | VM_ERROR_INVALID_ADDRESS
  | VM_ERROR_HALT
  | VM_ERROR_PLATFORM_IO

record vm_t =
  memory :: "16 word \<Rightarrow> 8 word"
  pc :: "16 word"
  sp :: "16 word"
  bp :: "16 word"
  running :: bool
  error :: vm_error_t

abbreviation (input) VM_MEMORY_SIZE :: nat where "VM_MEMORY_SIZE \<equiv> 65536"
abbreviation (input) VM_STACK_TOP :: "16 word" where "VM_STACK_TOP \<equiv> 0xFFFF"

abbreviation (input) OP_NOP :: "8 word" where "OP_NOP \<equiv> 0x00"
abbreviation (input) OP_HALT :: "8 word" where "OP_HALT \<equiv> 0x01"
abbreviation (input) OP_PUSH :: "8 word" where "OP_PUSH \<equiv> 0x02"
abbreviation (input) OP_POP :: "8 word" where "OP_POP \<equiv> 0x03"
abbreviation (input) OP_DUP :: "8 word" where "OP_DUP \<equiv> 0x04"
abbreviation (input) OP_SWAP :: "8 word" where "OP_SWAP \<equiv> 0x05"
abbreviation (input) OP_ADD :: "8 word" where "OP_ADD \<equiv> 0x06"
abbreviation (input) OP_SUB :: "8 word" where "OP_SUB \<equiv> 0x07"
abbreviation (input) OP_MUL :: "8 word" where "OP_MUL \<equiv> 0x08"
abbreviation (input) OP_DIV :: "8 word" where "OP_DIV \<equiv> 0x09"
abbreviation (input) OP_MOD :: "8 word" where "OP_MOD \<equiv> 0x0A"
abbreviation (input) OP_NEG :: "8 word" where "OP_NEG \<equiv> 0x0B"
abbreviation (input) OP_AND :: "8 word" where "OP_AND \<equiv> 0x0C"
abbreviation (input) OP_OR :: "8 word" where "OP_OR \<equiv> 0x0D"
abbreviation (input) OP_XOR :: "8 word" where "OP_XOR \<equiv> 0x0E"
abbreviation (input) OP_NOT :: "8 word" where "OP_NOT \<equiv> 0x0F"
abbreviation (input) OP_SHL :: "8 word" where "OP_SHL \<equiv> 0x10"
abbreviation (input) OP_SHR :: "8 word" where "OP_SHR \<equiv> 0x11"
abbreviation (input) OP_EQ :: "8 word" where "OP_EQ \<equiv> 0x12"
abbreviation (input) OP_NEQ :: "8 word" where "OP_NEQ \<equiv> 0x13"
abbreviation (input) OP_GT :: "8 word" where "OP_GT \<equiv> 0x14"
abbreviation (input) OP_LT :: "8 word" where "OP_LT \<equiv> 0x15"
abbreviation (input) OP_GTE :: "8 word" where "OP_GTE \<equiv> 0x16"
abbreviation (input) OP_LTE :: "8 word" where "OP_LTE \<equiv> 0x17"
abbreviation (input) OP_LOAD :: "8 word" where "OP_LOAD \<equiv> 0x18"
abbreviation (input) OP_STORE :: "8 word" where "OP_STORE \<equiv> 0x19"
abbreviation (input) OP_LOAD_IND :: "8 word" where "OP_LOAD_IND \<equiv> 0x1A"
abbreviation (input) OP_STORE_IND :: "8 word" where "OP_STORE_IND \<equiv> 0x1B"
abbreviation (input) OP_JMP :: "8 word" where "OP_JMP \<equiv> 0x1C"
abbreviation (input) OP_JZ :: "8 word" where "OP_JZ \<equiv> 0x1D"
abbreviation (input) OP_JNZ :: "8 word" where "OP_JNZ \<equiv> 0x1E"
abbreviation (input) OP_CALL :: "8 word" where "OP_CALL \<equiv> 0x1F"
abbreviation (input) OP_RET :: "8 word" where "OP_RET \<equiv> 0x20"
abbreviation (input) OP_IO :: "8 word" where "OP_IO \<equiv> 0x21"

subsection \<open>Stack and memory helpers\<close>

text \<open>
  \<^verbatim>\<open>vm_push\<close>: \<^verbatim>\<open>if (vm->sp == 0) { error = STACK_OVERFLOW; return; }
  vm->memory[vm->sp--] = value;\<close>  The post-decrement stores at the old \<open>sp\<close>.
\<close>

definition vm_push :: "vm_t \<Rightarrow> 8 word \<Rightarrow> vm_t" where
  "vm_push vm v =
     (if sp vm = 0 then vm\<lparr>error := VM_ERROR_STACK_OVERFLOW\<rparr>
      else vm\<lparr>memory := (memory vm)(sp vm := v), sp := sp vm - 1\<rparr>)"

text \<open>
  \<^verbatim>\<open>vm_pop\<close>: \<^verbatim>\<open>if (vm->sp >= VM_STACK_TOP) { error = STACK_UNDERFLOW; return 0; }
  return vm->memory[++vm->sp];\<close>  The result is the returned byte and the new state.
\<close>

definition vm_pop :: "vm_t \<Rightarrow> 8 word \<times> vm_t" where
  "vm_pop vm =
     (if sp vm \<ge> VM_STACK_TOP then (0, vm\<lparr>error := VM_ERROR_STACK_UNDERFLOW\<rparr>)
      else (memory vm (sp vm + 1), vm\<lparr>sp := sp vm + 1\<rparr>))"

text \<open>
  \<^verbatim>\<open>vm_read16\<close>: little-endian read, refused when \<^verbatim>\<open>addr >= VM_MEMORY_SIZE - 1\<close>.
\<close>

definition vm_read16 :: "vm_t \<Rightarrow> 16 word \<Rightarrow> 16 word \<times> vm_t" where
  "vm_read16 vm addr =
     (if unat addr \<ge> VM_MEMORY_SIZE - 1 then (0, vm\<lparr>error := VM_ERROR_INVALID_ADDRESS\<rparr>)
      else (ucast (memory vm addr) OR push_bit 8 (ucast (memory vm (addr + 1))), vm))"

definition vm_write16 :: "vm_t \<Rightarrow> 16 word \<Rightarrow> 16 word \<Rightarrow> vm_t" where
  "vm_write16 vm addr v =
     (if unat addr \<ge> VM_MEMORY_SIZE - 1 then vm\<lparr>error := VM_ERROR_INVALID_ADDRESS\<rparr>
      else vm\<lparr>memory := (memory vm)(addr := ucast (v AND 0xFF),
                                        addr + 1 := ucast (drop_bit 8 v AND 0xFF))\<rparr>)"

text \<open>
  \<^verbatim>\<open>init_vm\<close> zeroes the memory and resets the registers.  \<^verbatim>\<open>load_program\<close> reads
  at most 65536 bytes of the image file to address 0; the file is given as the result of
  opening it (\<open>None\<close> when \<^verbatim>\<open>fopen\<close> fails).  Both failures return
  \<^verbatim>\<open>VM_ERROR_INVALID_ADDRESS\<close>.
\<close>

definition init_vm :: vm_t where
  "init_vm = \<lparr>memory = (\<lambda>_. 0), pc = 0, sp = VM_STACK_TOP, bp = VM_STACK_TOP,
              running = True, error = VM_OK\<rparr>"

definition load_program :: "vm_t \<Rightarrow> 8 word list option \<Rightarrow> vm_error_t \<times> vm_t" where
  "load_program vm file =
     (case file of
        None \<Rightarrow> (VM_ERROR_INVALID_ADDRESS, vm)
      | Some bytes \<Rightarrow>
          let vm1 = vm\<lparr>memory := (\<lambda>a. if unat a < length bytes then bytes ! unat a
                                        else memory vm a)\<rparr>
          in if min (length bytes) VM_MEMORY_SIZE = 0 then (VM_ERROR_INVALID_ADDRESS, vm1)
             else (VM_OK, vm1))"

subsection \<open>The SDL2 platform layer (platform_io.h, platforms/sdl2/platform_io.c)\<close>

text \<open>
  The input state of \<^verbatim>\<open>platform_io_context_t\<close>.  The window, renderer, texture and pixel
  buffer are outside this model: the drawing operations below keep their effect on the
  machine stack and drop their pixel writes.  The field \<open>printed\<close> collects the bytes that
  \<^verbatim>\<open>IO_PRINT_CHAR\<close> writes to standard output.
\<close>

record platform_io_context_t =
  last_key :: "8 word"
  key_available :: bool
  mouse_x :: int
  mouse_y :: int
  mouse_buttons :: "8 word"
  mouse_event :: bool
  waiting_for_input :: bool
  printed :: "8 word list"

datatype platform_io_error_t =
    PLATFORM_IO_OK
  | PLATFORM_IO_ERROR_INIT_FAILED
  | PLATFORM_IO_ERROR_INVALID_OPERATION
  | PLATFORM_IO_ERROR_DEVICE_NOT_READY
  | PLATFORM_IO_ERROR_OUT_OF_BOUNDS
  | PLATFORM_IO_ERROR_UNKNOWN

abbreviation (input) IO_EXIT :: "8 word" where "IO_EXIT \<equiv> 0x00"
abbreviation (input) IO_PRINT_CHAR :: "8 word" where "IO_PRINT_CHAR \<equiv> 0x01"
abbreviation (input) IO_READ_CHAR :: "8 word" where "IO_READ_CHAR \<equiv> 0x02"
abbreviation (input) IO_DRAW_PIXEL :: "8 word" where "IO_DRAW_PIXEL \<equiv> 0x10"
abbreviation (input) IO_DRAW_LINE :: "8 word" where "IO_DRAW_LINE \<equiv> 0x11"
abbreviation (input) IO_FILL_RECT :: "8 word" where "IO_FILL_RECT \<equiv> 0x12"
abbreviation (input) IO_REFRESH :: "8 word" where "IO_REFRESH \<equiv> 0x13"
abbreviation (input) IO_POLL_KEY :: "8 word" where "IO_POLL_KEY \<equiv> 0x20"
abbreviation (input) IO_GET_KEY :: "8 word" where "IO_GET_KEY \<equiv> 0x21"
abbreviation (input) IO_POLL_MOUSE :: "8 word" where "IO_POLL_MOUSE \<equiv> 0x22"
abbreviation (input) IO_GET_MOUSE_X :: "8 word" where "IO_GET_MOUSE_X \<equiv> 0x23"
abbreviation (input) IO_GET_MOUSE_Y :: "8 word" where "IO_GET_MOUSE_Y \<equiv> 0x24"
abbreviation (input) IO_GET_MOUSE_B :: "8 word" where "IO_GET_MOUSE_B \<equiv> 0x25"

text \<open>
  \<^verbatim>\<open>platform_io_init\<close> clears the context with \<^verbatim>\<open>memset\<close>; it returns \<^verbatim>\<open>NULL\<close>
  when an allocation or an SDL call fails, which the argument says.
\<close>

definition platform_io_init :: "bool \<Rightarrow> platform_io_context_t option" where
  "platform_io_init sdl_ok =
     (if sdl_ok
      then Some \<lparr>last_key = 0, key_available = False, mouse_x = 0, mouse_y = 0,
                 mouse_buttons = 0, mouse_event = False, waiting_for_input = False,
                 printed = []\<rparr>
      else None)"

text \<open>A pop whose value only reaches the pixel buffer.\<close>

definition vm_pop_discard :: "vm_t \<Rightarrow> vm_t" where
  "vm_pop_discard vm = snd (vm_pop vm)"

text \<open>
  \<^verbatim>\<open>handle_platform_io\<close>, case by case.  \<^verbatim>\<open>IO_READ_CHAR\<close> is
  \<^verbatim>\<open>if (!ctx->waiting_for_input) { ctx->waiting_for_input = true; vm->pc--; }
  else if (ctx->key_available) { vm_push(vm, ctx->last_key); waiting = false;
  key_available = false; }\<close>.
\<close>

definition handle_platform_io ::
  "vm_t \<Rightarrow> platform_io_context_t \<Rightarrow> 8 word
     \<Rightarrow> platform_io_error_t \<times> vm_t \<times> platform_io_context_t" where
  "handle_platform_io vm ctx io_id =
     (if io_id = IO_EXIT then (PLATFORM_IO_OK, vm\<lparr>running := False\<rparr>, ctx)
      else if io_id = IO_PRINT_CHAR then
        (let (ch, vm1) = vm_pop vm
         in (PLATFORM_IO_OK, vm1, ctx\<lparr>printed := printed ctx @ [ch]\<rparr>))
      else if io_id = IO_READ_CHAR then
        (if \<not> waiting_for_input ctx
         then (PLATFORM_IO_OK, vm\<lparr>pc := pc vm - 1\<rparr>, ctx\<lparr>waiting_for_input := True\<rparr>)
         else if key_available ctx
         then (PLATFORM_IO_OK, vm_push vm (last_key ctx),
               ctx\<lparr>waiting_for_input := False, key_available := False\<rparr>)
         else (PLATFORM_IO_OK, vm, ctx))
      else if io_id = IO_DRAW_PIXEL then
        (PLATFORM_IO_OK, vm_pop_discard (vm_pop_discard (vm_pop_discard vm)), ctx)
      else if io_id = IO_DRAW_LINE then
        (PLATFORM_IO_OK,
         vm_pop_discard (vm_pop_discard (vm_pop_discard (vm_pop_discard (vm_pop_discard vm)))),
         ctx)
      else if io_id = IO_FILL_RECT then
        (PLATFORM_IO_OK,
         vm_pop_discard (vm_pop_discard (vm_pop_discard (vm_pop_discard (vm_pop_discard vm)))),
         ctx)
      else if io_id = IO_REFRESH then (PLATFORM_IO_OK, vm, ctx)
      else if io_id = IO_POLL_KEY then
        (PLATFORM_IO_OK, vm_push vm (if key_available ctx then 1 else 0), ctx)
      else if io_id = IO_GET_KEY then
        (PLATFORM_IO_OK, vm_push vm (last_key ctx), ctx\<lparr>key_available := False\<rparr>)
      else if io_id = IO_POLL_MOUSE then
        (PLATFORM_IO_OK, vm_push vm (if mouse_event ctx then 1 else 0), ctx)
      else if io_id = IO_GET_MOUSE_X then
        (PLATFORM_IO_OK,
         vm_push (vm_push vm (word_of_int (mouse_x ctx))) (word_of_int (mouse_x ctx div 256)),
         ctx)
      else if io_id = IO_GET_MOUSE_Y then
        (PLATFORM_IO_OK,
         vm_push (vm_push vm (word_of_int (mouse_y ctx))) (word_of_int (mouse_y ctx div 256)),
         ctx)
      else if io_id = IO_GET_MOUSE_B then
        (PLATFORM_IO_OK, vm_push vm (mouse_buttons ctx), ctx\<lparr>mouse_event := False\<rparr>)
      else (PLATFORM_IO_ERROR_INVALID_OPERATION, vm, ctx))"

text \<open>
  The events \<^verbatim>\<open>SDL_PollEvent\<close> can deliver, as far as \<^verbatim>\<open>platform_io_process_events\<close>
  tells them apart: a quit request, a key press with its key code, a mouse event with its
  window coordinates and the button mask of \<^verbatim>\<open>SDL_GetMouseState\<close>, and anything else.
  One call drains the batch of events that is pending at that moment;
  \<^verbatim>\<open>SDL_QUIT\<close> returns \<open>False\<close> at once.  The mouse coordinates are halved with
  C's truncating division.
\<close>

datatype sdl_event =
    SDL_QUIT
  | SDL_KEYDOWN "32 word"
  | SDL_MOUSE int int "32 word"
  | SDL_OTHER

definition c_half :: "int \<Rightarrow> int" where
  "c_half x = (if x < 0 then - ((- x) div 2) else x div 2)"

fun platform_io_process_events ::
  "sdl_event list \<Rightarrow> platform_io_context_t \<Rightarrow> bool \<times> platform_io_context_t" where
  "platform_io_process_events [] ctx = (True, ctx)"
| "platform_io_process_events (SDL_QUIT # es) ctx = (False, ctx)"
| "platform_io_process_events (SDL_KEYDOWN keycode # es) ctx =
     platform_io_process_events es
       (ctx\<lparr>last_key := ucast (keycode AND 0xFF), key_available := True\<rparr>)"
| "platform_io_process_events (SDL_MOUSE x y buttons # es) ctx =
     platform_io_process_events es
       (ctx\<lparr>mouse_x := c_half x, mouse_y := c_half y, mouse_buttons := ucast buttons,
            mouse_event := True\<rparr>)"
| "platform_io_process_events (SDL_OTHER # es) ctx = platform_io_process_events es ctx"

definition platform_io_is_waiting_for_input :: "platform_io_context_t \<Rightarrow> bool" where
  "platform_io_is_waiting_for_input ctx = (waiting_for_input ctx \<and> \<not> key_available ctx)"

subsection \<open>Instruction dispatch (the switch of run_vm)\<close>

text \<open>
  The operands of the ALU cases are \<^verbatim>\<open>uint8_t\<close>; C promotes them to \<^verbatim>\<open>int\<close> (32 bits
  on the platforms of the Makefile) and \<^verbatim>\<open>vm_push\<close> converts the result back to
  \<^verbatim>\<open>uint8_t\<close>, that is modulo 256.  For \<^verbatim>\<open>+ - * / % & | ^ ~\<close>, unary minus and the
  comparisons this is the arithmetic of \<open>8 word\<close>.  The shifts are different: a shift
  of the 32-bit \<^verbatim>\<open>int\<close> by 32 or more has no result that the code fixes (C99 6.5.7 leaves
  it undefined, and processors disagree: some reduce the count modulo 32, some give 0), so
  the model returns \<open>None\<close> there.  Below 32, \<^verbatim>\<open>a >> b\<close> is the quotient by \<open>2 ^ b\<close>
  and \<^verbatim>\<open>a << b\<close> the product with \<open>2 ^ b\<close> in 32-bit two's complement, of which
  \<^verbatim>\<open>vm_push\<close> keeps the low byte; this is what the compilers of the Makefile produce also
  where the product does not fit \<^verbatim>\<open>int\<close>.
\<close>

definition c_shl :: "8 word \<Rightarrow> 8 word \<Rightarrow> 8 word option" where
  "c_shl a b =
     (if unat b \<ge> 32 then None else Some (word_of_int (uint a * 2 ^ unat b)))"

definition c_shr :: "8 word \<Rightarrow> 8 word \<Rightarrow> 8 word option" where
  "c_shr a b =
     (if unat b \<ge> 32 then None else Some (word_of_int (uint a div 2 ^ unat b)))"

text \<open>
  The shapes shared by the cases of the switch: \<^verbatim>\<open>a = vm_pop(vm); vm_push(vm, f(a))\<close>,
  \<^verbatim>\<open>b = vm_pop(vm); a = vm_pop(vm); vm_push(vm, f(a, b))\<close>, the same with the
  \<^verbatim>\<open>if (b == 0) { error = DIVISION_BY_ZERO; break; }\<close> of DIV and MOD before the push, and
  the same with a shift as \<open>f\<close>.
\<close>

definition unary_op :: "(8 word \<Rightarrow> 8 word) \<Rightarrow> vm_t \<Rightarrow> vm_t" where
  "unary_op f vm = (let (a, vm1) = vm_pop vm in vm_push vm1 (f a))"

definition binary_op :: "(8 word \<Rightarrow> 8 word \<Rightarrow> 8 word) \<Rightarrow> vm_t \<Rightarrow> vm_t" where
  "binary_op f vm =
     (let (b, vm1) = vm_pop vm; (a, vm2) = vm_pop vm1 in vm_push vm2 (f a b))"

definition div_op :: "(8 word \<Rightarrow> 8 word \<Rightarrow> 8 word) \<Rightarrow> vm_t \<Rightarrow> vm_t" where
  "div_op f vm =
     (let (b, vm1) = vm_pop vm; (a, vm2) = vm_pop vm1
      in if b = 0 then vm2\<lparr>error := VM_ERROR_DIVISION_BY_ZERO\<rparr> else vm_push vm2 (f a b))"

definition shift_op :: "(8 word \<Rightarrow> 8 word \<Rightarrow> 8 word option) \<Rightarrow> vm_t \<Rightarrow> vm_t option" where
  "shift_op f vm =
     (let (b, vm1) = vm_pop vm; (a, vm2) = vm_pop vm1
      in case f a b of None \<Rightarrow> None | Some r \<Rightarrow> Some (vm_push vm2 r))"

definition bool_byte :: "bool \<Rightarrow> 8 word" where
  "bool_byte c = (if c then 1 else 0)"

text \<open>
  \<open>vm_execute opcode vm ctx\<close> is the switch, entered after the opcode has been fetched and
  \<open>pc\<close> advanced past it.  \<open>None\<close> is a shift by 32 or more; every other case has a
  result.  In \<^verbatim>\<open>OP_LOAD_IND\<close> and \<^verbatim>\<open>OP_STORE_IND\<close> the two pops of
  \<^verbatim>\<open>vm_pop(vm) | (vm_pop(vm) << 8)\<close> are taken left to right.
\<close>

definition vm_execute ::
  "8 word \<Rightarrow> vm_t \<Rightarrow> platform_io_context_t \<Rightarrow> (vm_t \<times> platform_io_context_t) option" where
  "vm_execute opcode vm ctx =
     (if opcode = OP_NOP then Some (vm, ctx)
      else if opcode = OP_HALT then
        Some (vm\<lparr>running := False, error := VM_ERROR_HALT\<rparr>, ctx)
      else if opcode = OP_PUSH then
        Some (vm_push (vm\<lparr>pc := pc vm + 1\<rparr>) (memory vm (pc vm)), ctx)
      else if opcode = OP_POP then Some (snd (vm_pop vm), ctx)
      else if opcode = OP_DUP then
        (let (v, vm1) = vm_pop vm in Some (vm_push (vm_push vm1 v) v, ctx))
      else if opcode = OP_SWAP then
        (let (a, vm1) = vm_pop vm; (b, vm2) = vm_pop vm1
         in Some (vm_push (vm_push vm2 a) b, ctx))
      else if opcode = OP_ADD then Some (binary_op (\<lambda>a b. a + b) vm, ctx)
      else if opcode = OP_SUB then Some (binary_op (\<lambda>a b. a - b) vm, ctx)
      else if opcode = OP_MUL then Some (binary_op (\<lambda>a b. a * b) vm, ctx)
      else if opcode = OP_DIV then Some (div_op (\<lambda>a b. a div b) vm, ctx)
      else if opcode = OP_MOD then Some (div_op (\<lambda>a b. a mod b) vm, ctx)
      else if opcode = OP_NEG then Some (unary_op (\<lambda>a. - a) vm, ctx)
      else if opcode = OP_AND then Some (binary_op (\<lambda>a b. a AND b) vm, ctx)
      else if opcode = OP_OR then Some (binary_op (\<lambda>a b. a OR b) vm, ctx)
      else if opcode = OP_XOR then Some (binary_op (\<lambda>a b. a XOR b) vm, ctx)
      else if opcode = OP_NOT then Some (unary_op (\<lambda>a. NOT a) vm, ctx)
      else if opcode = OP_SHL then
        (case shift_op c_shl vm of None \<Rightarrow> None | Some vm1 \<Rightarrow> Some (vm1, ctx))
      else if opcode = OP_SHR then
        (case shift_op c_shr vm of None \<Rightarrow> None | Some vm1 \<Rightarrow> Some (vm1, ctx))
      else if opcode = OP_EQ then Some (binary_op (\<lambda>a b. bool_byte (a = b)) vm, ctx)
      else if opcode = OP_NEQ then Some (binary_op (\<lambda>a b. bool_byte (a \<noteq> b)) vm, ctx)
      else if opcode = OP_GT then Some (binary_op (\<lambda>a b. bool_byte (a > b)) vm, ctx)
      else if opcode = OP_LT then Some (binary_op (\<lambda>a b. bool_byte (a < b)) vm, ctx)
      else if opcode = OP_GTE then Some (binary_op (\<lambda>a b. bool_byte (a \<ge> b)) vm, ctx)
      else if opcode = OP_LTE then Some (binary_op (\<lambda>a b. bool_byte (a \<le> b)) vm, ctx)
      else if opcode = OP_LOAD then
        (let (addr, vm1) = vm_read16 vm (pc vm);
             vm2 = vm1\<lparr>pc := pc vm1 + 2\<rparr>
         in if unat addr < VM_MEMORY_SIZE then Some (vm_push vm2 (memory vm2 addr), ctx)
            else Some (vm2\<lparr>error := VM_ERROR_INVALID_ADDRESS\<rparr>, ctx))
      else if opcode = OP_STORE then
        (let (addr, vm1) = vm_read16 vm (pc vm);
             vm2 = vm1\<lparr>pc := pc vm1 + 2\<rparr>;
             (v, vm3) = vm_pop vm2
         in if unat addr < VM_MEMORY_SIZE
            then Some (vm3\<lparr>memory := (memory vm3)(addr := v)\<rparr>, ctx)
            else Some (vm3\<lparr>error := VM_ERROR_INVALID_ADDRESS\<rparr>, ctx))
      else if opcode = OP_LOAD_IND then
        (let (lo, vm1) = vm_pop vm; (hi, vm2) = vm_pop vm1;
             addr = (ucast lo OR push_bit 8 (ucast hi) :: 16 word)
         in if unat addr < VM_MEMORY_SIZE then Some (vm_push vm2 (memory vm2 addr), ctx)
            else Some (vm2\<lparr>error := VM_ERROR_INVALID_ADDRESS\<rparr>, ctx))
      else if opcode = OP_STORE_IND then
        (let (lo, vm1) = vm_pop vm; (hi, vm2) = vm_pop vm1;
             addr = (ucast lo OR push_bit 8 (ucast hi) :: 16 word);
             (v, vm3) = vm_pop vm2
         in if unat addr < VM_MEMORY_SIZE
            then Some (vm3\<lparr>memory := (memory vm3)(addr := v)\<rparr>, ctx)
            else Some (vm3\<lparr>error := VM_ERROR_INVALID_ADDRESS\<rparr>, ctx))
      else if opcode = OP_JMP then
        (let (addr, vm1) = vm_read16 vm (pc vm) in Some (vm1\<lparr>pc := addr\<rparr>, ctx))
      else if opcode = OP_JZ then
        (let (addr, vm1) = vm_read16 vm (pc vm);
             vm2 = vm1\<lparr>pc := pc vm1 + 2\<rparr>;
             (v, vm3) = vm_pop vm2
         in Some (if v = 0 then vm3\<lparr>pc := addr\<rparr> else vm3, ctx))
      else if opcode = OP_JNZ then
        (let (addr, vm1) = vm_read16 vm (pc vm);
             vm2 = vm1\<lparr>pc := pc vm1 + 2\<rparr>;
             (v, vm3) = vm_pop vm2
         in Some (if v \<noteq> 0 then vm3\<lparr>pc := addr\<rparr> else vm3, ctx))
      else if opcode = OP_CALL then
        (let (addr, vm1) = vm_read16 vm (pc vm);
             vm2 = vm1\<lparr>pc := pc vm1 + 2\<rparr>;
             vm3 = vm_push vm2 (ucast (pc vm2 AND 0xFF));
             vm4 = vm_push vm3 (ucast (drop_bit 8 (pc vm3) AND 0xFF))
         in Some (vm4\<lparr>pc := addr\<rparr>, ctx))
      else if opcode = OP_RET then
        (let (hi, vm1) = vm_pop vm; (lo, vm2) = vm_pop vm1;
             addr = (push_bit 8 (ucast hi) OR ucast lo :: 16 word)
         in Some (vm2\<lparr>pc := addr\<rparr>, ctx))
      else if opcode = OP_IO then
        (let io_id = memory vm (pc vm);
             (io_error, vm1, ctx1) = handle_platform_io (vm\<lparr>pc := pc vm + 1\<rparr>) ctx io_id
         in if io_error \<noteq> PLATFORM_IO_OK
            then (if io_id = IO_EXIT then Some (vm1\<lparr>error := VM_ERROR_HALT\<rparr>, ctx1)
                  else Some (vm1\<lparr>error := VM_ERROR_PLATFORM_IO\<rparr>, ctx1))
            else Some (vm1, ctx1))
      else Some (vm\<lparr>error := VM_ERROR_INVALID_OPCODE\<rparr>, ctx))"

text \<open>
  One pass through the body of the loop after the event and waiting checks: the bounds
  check on \<open>pc\<close> (never true for a 16-bit \<open>pc\<close>, kept as written), the fetch
  \<^verbatim>\<open>opcode = vm->memory[vm->pc++]\<close> and the switch.
\<close>

definition vm_fetch_execute ::
  "vm_t \<Rightarrow> platform_io_context_t \<Rightarrow> (vm_t \<times> platform_io_context_t) option" where
  "vm_fetch_execute vm ctx =
     (if unat (pc vm) \<ge> VM_MEMORY_SIZE then Some (vm\<lparr>error := VM_ERROR_INVALID_ADDRESS\<rparr>, ctx)
      else vm_execute (memory vm (pc vm)) (vm\<lparr>pc := pc vm + 1\<rparr>) ctx)"

subsection \<open>The execution loop and the entry point\<close>

text \<open>
  \<^verbatim>\<open>run_vm\<close> polls the host once per iteration, so a run is driven by the batches of
  events the host delivers, one batch per iteration.  The loop can run for ever; the model
  runs as many iterations as there are batches and says so when they do not suffice.
\<close>

datatype 'a outcome = Returned 'a | Undefined_Behaviour | Events_Exhausted

fun run_vm ::
  "sdl_event list list \<Rightarrow> vm_t \<Rightarrow> platform_io_context_t
     \<Rightarrow> (vm_t \<times> platform_io_context_t) outcome" where
  "run_vm [] vm ctx =
     (if running vm \<and> error vm = VM_OK then Events_Exhausted else Returned (vm, ctx))"
| "run_vm (batch # rest) vm ctx =
     (if \<not> (running vm \<and> error vm = VM_OK) then Returned (vm, ctx)
      else case platform_io_process_events batch ctx of
        (False, ctx1) \<Rightarrow> Returned (vm\<lparr>running := False\<rparr>, ctx1)
      | (True, ctx1) \<Rightarrow>
          if platform_io_is_waiting_for_input ctx1 then run_vm rest vm ctx1
          else (case vm_fetch_execute vm ctx1 of
                  None \<Rightarrow> Undefined_Behaviour
                | Some (vm2, ctx2) \<Rightarrow>
                    if error vm2 \<noteq> VM_OK \<and> error vm2 \<noteq> VM_ERROR_HALT
                    then Returned (vm2, ctx2)
                    else run_vm rest vm2 ctx2))"

text \<open>
  \<^verbatim>\<open>main\<close> of the engine: the argument count, whether the platform came up, the image
  file as opened, and the host's event batches.  The result is the exit code with the lines
  printed.  After \<^verbatim>\<open>run_vm\<close> the function reports the error and falls through to
  \<^verbatim>\<open>return 0\<close>.
\<close>

datatype kxn_message =
    Usage
  | Failed_To_Initialize_Platform
  | Failed_To_Load_Program vm_error_t
  | Running_VM
  | VM_Halted_Normally
  | VM_Error vm_error_t

definition kxn_main ::
  "nat \<Rightarrow> bool \<Rightarrow> 8 word list option \<Rightarrow> sdl_event list list
     \<Rightarrow> (int \<times> kxn_message list) outcome" where
  "kxn_main argc sdl_ok file batches =
     (if argc \<noteq> 2 then Returned (1, [Usage])
      else case platform_io_init sdl_ok of
        None \<Rightarrow> Returned (1, [Failed_To_Initialize_Platform])
      | Some io_ctx \<Rightarrow>
          (case load_program init_vm file of
             (VM_OK, vm) \<Rightarrow>
               (case run_vm batches vm io_ctx of
                  Returned (vm1, ctx1) \<Rightarrow>
                    Returned (0, [Running_VM] @
                       (if error vm1 = VM_ERROR_HALT then [VM_Halted_Normally]
                        else if error vm1 \<noteq> VM_OK then [VM_Error (error vm1)]
                        else []))
                | Undefined_Behaviour \<Rightarrow> Undefined_Behaviour
                | Events_Exhausted \<Rightarrow> Events_Exhausted)
           | (e, vm) \<Rightarrow> Returned (1, [Failed_To_Load_Program e])))"

subsection \<open>Running programs\<close>

text \<open>
  The machine as \<^verbatim>\<open>main\<close> hands it to \<^verbatim>\<open>run_vm\<close>: \<^verbatim>\<open>init_vm\<close>, then the image
  file read to address 0; and the platform context as \<^verbatim>\<open>platform_io_init\<close> leaves it.
\<close>

definition boot :: "8 word list \<Rightarrow> vm_t" where
  "boot bytes = snd (load_program init_vm (Some bytes))"

definition fresh_io :: platform_io_context_t where
  "fresh_io = the (platform_io_init True)"

text \<open>
  \<open>n\<close> instructions in a row, fetched and executed with no host event in between.
\<close>

fun vm_steps ::
  "nat \<Rightarrow> vm_t \<Rightarrow> platform_io_context_t \<Rightarrow> (vm_t \<times> platform_io_context_t) option" where
  "vm_steps 0 vm ctx = Some (vm, ctx)"
| "vm_steps (Suc n) vm ctx =
     (case vm_fetch_execute vm ctx of
        None \<Rightarrow> None
      | Some (vm1, ctx1) \<Rightarrow> vm_steps n vm1 ctx1)"

text \<open>The byte on top of the stack of a run that ended in \<^verbatim>\<open>HALT\<close>.\<close>

fun halted_top :: "(vm_t \<times> platform_io_context_t) outcome \<Rightarrow> 8 word option" where
  "halted_top (Returned (vm, ctx)) =
     (if error vm = VM_ERROR_HALT then Some (memory vm (sp vm + 1)) else None)"
| "halted_top Undefined_Behaviour = None"
| "halted_top Events_Exhausted = None"

subsection \<open>Example programs\<close>

text \<open>
  A caller and a subroutine: \<^verbatim>\<open>CALL 0x0004; HALT; PUSH 42; POP; RET\<close>, with the machine
  as it stands after the \<^verbatim>\<open>CALL\<close> and again in front of the \<^verbatim>\<open>RET\<close>.
\<close>

definition call_demo :: "8 word list" where
  "call_demo = [OP_CALL, 0x04, 0x00, OP_HALT, OP_PUSH, 42, OP_POP, OP_RET]"

definition call_demo_entered :: vm_t where
  "call_demo_entered =
     (boot call_demo)\<lparr>pc := 4, memory := (memory (boot call_demo))(0xFFFF := 3, 0xFFFE := 0),
                       sp := 0xFFFD\<rparr>"

definition call_demo_at_ret :: vm_t where
  "call_demo_at_ret =
     call_demo_entered\<lparr>pc := 7, memory := (memory call_demo_entered)(0xFFFD := 42)\<rparr>"

text \<open>
  The division by zero of the specification, \<^verbatim>\<open>PUSH 5; PUSH 0; DIV; HALT\<close>, with the
  machine as it stands in front of the \<^verbatim>\<open>DIV\<close>.
\<close>

definition div_demo :: "8 word list" where
  "div_demo = [OP_PUSH, 5, OP_PUSH, 0, OP_DIV, OP_HALT]"

definition div_demo_at_div :: vm_t where
  "div_demo_at_div =
     (boot div_demo)\<lparr>pc := 4, memory := (memory (boot div_demo))(0xFFFF := 5, 0xFFFE := 0),
                      sp := 0xFFFD\<rparr>"

text \<open>
  A blocking read followed by two \<^verbatim>\<open>HALT\<close>s: \<^verbatim>\<open>IO 0x02; HALT; HALT\<close>.
\<close>

definition read_char_demo :: "8 word list" where
  "read_char_demo = [OP_IO, IO_READ_CHAR, OP_HALT, OP_HALT]"

text \<open>
  The two-operand cases of the switch that always push their result: arithmetic without
  the division check, bitwise logic and the comparisons.
\<close>

definition pushing_alu_ops :: "8 word set" where
  "pushing_alu_ops = {OP_ADD, OP_SUB, OP_MUL, OP_AND, OP_OR, OP_XOR,
                      OP_EQ, OP_NEQ, OP_GT, OP_LT, OP_GTE, OP_LTE}"

section \<open>The assembler (assembler.c)\<close>

text \<open>
  The process-wide state of the assembler: the label table and the reference list (each
  capped at \<^verbatim>\<open>MAX_LABELS\<close> entries), the output array (\<open>output_buf\<close>) with its 16-bit write position,
  and the lines printed.  A reference keeps its name and patch location (its
  \<^verbatim>\<open>address\<close> field is never used).  The output array has 65536 cells and is indexed by
  that position; \<^verbatim>\<open>patch_labels\<close> also writes at \<^verbatim>\<open>patch_pos + 1\<close>, so the cells are
  numbered by \<open>nat\<close>.  Names are taken to fit their 64-byte buffers and source text to be
  ASCII without NUL.
\<close>

datatype asm_message =
    Asm_Usage
  | Cannot_Open_File
  | Unknown_Instruction string nat
  | Undefined_Label string
  | Cannot_Create_Output_File
  | Assembly_Complete nat

record asm_state =
  labels :: "(string \<times> 16 word) list"
  label_refs :: "(string \<times> 16 word) list"
  output_buf :: "nat \<Rightarrow> 8 word"
  output_pos :: "16 word"
  diagnostics :: "asm_message list"

abbreviation (input) MAX_LABELS :: nat where "MAX_LABELS \<equiv> 100"


definition emit_byte :: "asm_state \<Rightarrow> 8 word \<Rightarrow> asm_state" where
  "emit_byte st byte =
     (if unat (output_pos st) < VM_MEMORY_SIZE
      then st\<lparr>output_buf := (output_buf st)(unat (output_pos st) := byte),
              output_pos := output_pos st + 1\<rparr>
      else st)"

definition emit_word :: "asm_state \<Rightarrow> 16 word \<Rightarrow> asm_state" where
  "emit_word st w =
     emit_byte (emit_byte st (ucast (w AND 0xFF))) (ucast (drop_bit 8 w AND 0xFF))"


definition add_label :: "asm_state \<Rightarrow> string \<Rightarrow> 16 word \<Rightarrow> asm_state" where
  "add_label st name address =
     (if length (labels st) < MAX_LABELS then st\<lparr>labels := labels st @ [(name, address)]\<rparr>
      else st)"

definition add_label_ref :: "asm_state \<Rightarrow> string \<Rightarrow> 16 word \<Rightarrow> asm_state" where
  "add_label_ref st name patch_location =
     (if length (label_refs st) < MAX_LABELS
      then st\<lparr>label_refs := label_refs st @ [(name, patch_location)]\<rparr>
      else st)"



subsection \<open>The C library as the assembler uses it\<close>

text \<open>
  \<^verbatim>\<open>isspace\<close>, \<^verbatim>\<open>isalpha\<close> and \<^verbatim>\<open>toupper\<close> in the C locale; \<^verbatim>\<open>strtok\<close> with the
  delimiters space and tab, returning the token and the text after the delimiter that
  ended it; and \<^verbatim>\<open>strtol\<close> for the bases 10 and 16 with a 64-bit \<^verbatim>\<open>long\<close>: leading
  white space, an optional sign, for base 16 an optional \<^verbatim>\<open>0x\<close> before a hex digit, then
  digits up to the first character that is none, the value clamped to the range of
  \<^verbatim>\<open>long\<close>.
\<close>

definition isspace :: "char \<Rightarrow> bool" where
  "isspace c = (c \<in> set [CHR '' '', CHR 0x09, CHR 0x0A, CHR 0x0B, CHR 0x0C, CHR 0x0D])"

definition lower_case :: string where "lower_case = ''abcdefghijklmnopqrstuvwxyz''"
definition upper_case :: string where "upper_case = ''ABCDEFGHIJKLMNOPQRSTUVWXYZ''"

definition isalpha :: "char \<Rightarrow> bool" where
  "isalpha c = (c \<in> set (upper_case @ lower_case))"


definition is_delim :: "char \<Rightarrow> bool" where
  "is_delim c = (c = CHR '' '' \<or> c = CHR 0x09)"

definition strtok :: "string \<Rightarrow> (string \<times> string) option" where
  "strtok s =
     (let s1 = dropWhile is_delim s
      in if s1 = [] then None
         else Some (takeWhile (\<lambda>c. \<not> is_delim c) s1,
                    drop 1 (dropWhile (\<lambda>c. \<not> is_delim c) s1)))"

definition digit_value :: "char \<Rightarrow> int option" where
  "digit_value c =
     map_of [(CHR ''0'', 0), (CHR ''1'', 1), (CHR ''2'', 2), (CHR ''3'', 3), (CHR ''4'', 4),
             (CHR ''5'', 5), (CHR ''6'', 6), (CHR ''7'', 7), (CHR ''8'', 8), (CHR ''9'', 9),
             (CHR ''a'', 10), (CHR ''b'', 11), (CHR ''c'', 12), (CHR ''d'', 13),
             (CHR ''e'', 14), (CHR ''f'', 15),
             (CHR ''A'', 10), (CHR ''B'', 11), (CHR ''C'', 12), (CHR ''D'', 13),
             (CHR ''E'', 14), (CHR ''F'', 15)] c"

fun strtol_digits :: "int \<Rightarrow> string \<Rightarrow> int \<Rightarrow> int" where
  "strtol_digits base [] acc = acc"
| "strtol_digits base (c # cs) acc =
     (case digit_value c of
        None \<Rightarrow> acc
      | Some d \<Rightarrow> if d < base then strtol_digits base cs (acc * base + d) else acc)"

definition has_hex_prefix :: "string \<Rightarrow> bool" where
  "has_hex_prefix s =
     (case s of
        z # x # d # _ \<Rightarrow>
          z = CHR ''0'' \<and> (x = CHR ''x'' \<or> x = CHR ''X'') \<and> digit_value d \<noteq> None
      | _ \<Rightarrow> False)"

definition strtol :: "string \<Rightarrow> int \<Rightarrow> int" where
  "strtol s base =
     (let s1 = dropWhile isspace s;
          negative = (take 1 s1 = ''-'');
          s2 = (if take 1 s1 = ''-'' \<or> take 1 s1 = ''+'' then drop 1 s1 else s1);
          s3 = (if base = 16 \<and> has_hex_prefix s2 then drop 2 s2 else s2);
          v = strtol_digits base s3 0;
          r = (if negative then - v else v)
      in max (- (2 ^ 63)) (min (2 ^ 63 - 1) r))"

text \<open>
  \<^verbatim>\<open>parse_number\<close>: \<^verbatim>\<open>0x\<close> selects base 16, anything else base 10; the \<^verbatim>\<open>long\<close> is
  cast to a 32-bit \<^verbatim>\<open>int\<close>.
\<close>

definition parse_number :: "string \<Rightarrow> int" where
  "parse_number str =
     sint (word_of_int (if take 2 str = ''0x'' then strtol str 16 else strtol str 10) :: 32 word)"


subsection \<open>The first pass\<close>

text \<open>
  The operand of \<^verbatim>\<open>PUSH\<close> and \<^verbatim>\<open>SYS\<close>: the next token, if there is one, as a byte.  The
  operand of \<^verbatim>\<open>LOAD\<close>, \<^verbatim>\<open>STORE\<close>, \<^verbatim>\<open>JMP\<close>, \<^verbatim>\<open>JZ\<close>, \<^verbatim>\<open>JNZ\<close> and \<^verbatim>\<open>CALL\<close>: the next
  token, if there is one; a token that starts with a letter is a label reference,
  recorded at the current position and emitted as the placeholder 0, anything else a
  number.
\<close>

definition emit_byte_operand :: "string \<Rightarrow> asm_state \<Rightarrow> asm_state" where
  "emit_byte_operand rest st =
     (case strtok rest of
        None \<Rightarrow> st
      | Some (token, _) \<Rightarrow> emit_byte st (word_of_int (parse_number token)))"

definition emit_address_operand :: "string \<Rightarrow> asm_state \<Rightarrow> asm_state" where
  "emit_address_operand rest st =
     (case strtok rest of
        None \<Rightarrow> st
      | Some (token, _) \<Rightarrow>
          if isalpha (hd token)
          then emit_word (add_label_ref st token (output_pos st)) 0
          else emit_word st (word_of_int (parse_number token)))"

text \<open>
  The chain of \<^verbatim>\<open>strcmp\<close>s on the upper-cased first token; \<open>rest\<close> is the text after
  it.
\<close>

definition assemble_instruction :: "string \<Rightarrow> string \<Rightarrow> nat \<Rightarrow> asm_state \<Rightarrow> asm_state" where
  "assemble_instruction token rest line_num st =
     (
      if token = ''NOP'' then emit_byte st OP_NOP
      else if token = ''HALT'' then emit_byte st OP_HALT
      else if token = ''PUSH'' then emit_byte_operand rest (emit_byte st OP_PUSH)
      else if token = ''POP'' then emit_byte st OP_POP
      else if token = ''DUP'' then emit_byte st OP_DUP
      else if token = ''SWAP'' then emit_byte st OP_SWAP
      else if token = ''ADD'' then emit_byte st OP_ADD
      else if token = ''SUB'' then emit_byte st OP_SUB
      else if token = ''MUL'' then emit_byte st OP_MUL
      else if token = ''DIV'' then emit_byte st OP_DIV
      else if token = ''MOD'' then emit_byte st OP_MOD
      else if token = ''NEG'' then emit_byte st OP_NEG
      else if token = ''AND'' then emit_byte st OP_AND
      else if token = ''OR'' then emit_byte st OP_OR
      else if token = ''XOR'' then emit_byte st OP_XOR
      else if token = ''NOT'' then emit_byte st OP_NOT
      else if token = ''SHL'' then emit_byte st OP_SHL
      else if token = ''SHR'' then emit_byte st OP_SHR
      else if token = ''EQ'' then emit_byte st OP_EQ
      else if token = ''NEQ'' then emit_byte st OP_NEQ
      else if token = ''GT'' then emit_byte st OP_GT
      else if token = ''LT'' then emit_byte st OP_LT
      else if token = ''GTE'' then emit_byte st OP_GTE
      else if token = ''LTE'' then emit_byte st OP_LTE
      else if token = ''LOAD'' then emit_address_operand rest (emit_byte st OP_LOAD)
      else if token = ''STORE'' then emit_address_operand rest (emit_byte st OP_STORE)
      else if token = ''LOAD_IND'' then emit_byte st OP_LOAD_IND
      else if token = ''STORE_IND'' then emit_byte st OP_STORE_IND
      else if token = ''JMP'' then emit_address_operand rest (emit_byte st OP_JMP)
      else if token = ''JZ'' then emit_address_operand rest (emit_byte st OP_JZ)
      else if token = ''JNZ'' then emit_address_operand rest (emit_byte st OP_JNZ)
      else if token = ''CALL'' then emit_address_operand rest (emit_byte st OP_CALL)
      else if token = ''RET'' then emit_byte st OP_RET
      else if token = ''SYS'' then emit_byte_operand rest (emit_byte st OP_IO)
      else st\<lparr>diagnostics := diagnostics st @ [Unknown_Instruction token line_num]\<rparr>)"




subsection \<open>assemble_file and main\<close>



subsection \<open>Label definitions and references in the source\<close>










section \<open>Properties of the stack primitives\<close>

lemma vm_push_ok:
  "sp vm \<noteq> 0 \<Longrightarrow> vm_push vm v = vm\<lparr>memory := (memory vm)(sp vm := v), sp := sp vm - 1\<rparr>"
  by (simp add: vm_push_def)

lemma vm_pop_ok:
  "sp vm < VM_STACK_TOP \<Longrightarrow> vm_pop vm = (memory vm (sp vm + 1), vm\<lparr>sp := sp vm + 1\<rparr>)"
  by (simp add: vm_pop_def not_le [symmetric])

lemma vm_pop_empty:
  "sp vm = VM_STACK_TOP \<Longrightarrow> vm_pop vm = (0, vm\<lparr>error := VM_ERROR_STACK_UNDERFLOW\<rparr>)"
  by (simp add: vm_pop_def)

lemma sp_pred_below_top: "s \<noteq> 0 \<Longrightarrow> s - 1 < (VM_STACK_TOP :: 16 word)"
proof -
  assume "s \<noteq> 0"
  moreover have "unat s < 65536" using unsigned_less [of s, where 'a = nat] by simp
  ultimately show ?thesis by (simp add: word_less_nat_alt unat_minus_one)
qed

text \<open>
  Claim C3, as the code has it.  A push with \<open>SP = s\<close>, \<open>s \<noteq> 0\<close>, writes the byte at
  address \<open>s\<close> itself and then decrements: afterwards \<open>memory[s] = v\<close> and \<open>SP = s - 1\<close>,
  nothing else changes, and \<open>SP\<close> is the address of the next free slot, one below the
  most recently pushed byte (\<open>0xFFFF\<close> when the stack is empty).  A pop with \<open>SP = s\<close>,
  \<open>s < 0xFFFF\<close>, reads \<open>memory[s + 1]\<close> and sets \<open>SP = s + 1\<close>; a pop straight after a
  push returns the pushed byte and restores \<open>SP\<close>.
\<close>

theorem vm_push_pop_layout:
  "(sp vm \<noteq> 0 \<longrightarrow>
      memory (vm_push vm v) (sp vm) = v \<and> sp (vm_push vm v) = sp vm - 1 \<and>
      (\<forall>a. a \<noteq> sp vm \<longrightarrow> memory (vm_push vm v) a = memory vm a) \<and>
      error (vm_push vm v) = error vm \<and>
      vm_pop (vm_push vm v) = (v, (vm_push vm v)\<lparr>sp := sp vm\<rparr>)) \<and>
   (sp vm < VM_STACK_TOP \<longrightarrow>
      fst (vm_pop vm) = memory vm (sp vm + 1) \<and> sp (snd (vm_pop vm)) = sp vm + 1 \<and>
      memory (snd (vm_pop vm)) = memory vm \<and> error (snd (vm_pop vm)) = error vm)"
proof (intro conjI impI)
  assume nz: "sp vm \<noteq> 0"
  then show "vm_pop (vm_push vm v) = (v, (vm_push vm v)\<lparr>sp := sp vm\<rparr>)"
    using sp_pred_below_top [OF nz] by (simp add: vm_push_ok vm_pop_ok)
qed (simp_all add: vm_push_ok vm_pop_ok)

theorem vm_push_pop_layout_witness:
  "sp init_vm \<noteq> 0 \<and> memory (vm_push init_vm 7) VM_STACK_TOP = 7 \<and>
   sp (vm_push init_vm 7) = 0xFFFE \<and>
   sp (vm_push init_vm 7) < VM_STACK_TOP \<and> fst (vm_pop (vm_push init_vm 7)) = 7 \<and>
   sp (snd (vm_pop (vm_push init_vm 7))) = VM_STACK_TOP"
  using vm_push_pop_layout [of init_vm 7] vm_push_pop_layout [of "vm_push init_vm 7" 9]
  by (simp add: init_vm_def vm_push_def)

text \<open>
  Claim C3 as the specification words it has the push decrement first and write at the new
  \<open>SP\<close>, so that \<open>memory[s - 1] = v\<close>.  On the empty stack a push of 7 leaves
  \<open>memory[0xFFFE]\<close> at 0 and puts the 7 at \<open>0xFFFF\<close>.
\<close>

theorem push_writes_below_sp_counterexample:
  "sp init_vm \<noteq> 0 \<and> sp (vm_push init_vm 7) = sp init_vm - 1 \<and>
   memory (vm_push init_vm 7) (sp init_vm - 1) \<noteq> 7 \<and>
   memory (vm_push init_vm 7) (sp init_vm) = 7"
  by (simp add: vm_push_def init_vm_def)

lemma pushes_from_init:
  "length vs \<le> 65535 \<Longrightarrow>
     error (foldl vm_push init_vm vs) = VM_OK \<and>
     unat (sp (foldl vm_push init_vm vs)) = 65535 - length vs"
proof (induction vs rule: rev_induct)
  case Nil
  show ?case by (simp add: init_vm_def)
next
  case (snoc v vs)
  then have ih: "error (foldl vm_push init_vm vs) = VM_OK"
    "unat (sp (foldl vm_push init_vm vs)) = 65535 - length vs" and len: "length vs < 65535"
    by simp_all
  from ih(2) len have nz: "sp (foldl vm_push init_vm vs) \<noteq> 0"
    by (auto simp: unat_eq_0 [symmetric])
  show ?case using ih len nz by (simp add: vm_push_ok unat_minus_one)
qed

lemma push_65536_overflows:
  assumes "length vs = 65536"
  shows "error (foldl vm_push init_vm vs) = VM_ERROR_STACK_OVERFLOW"
proof -
  from assms obtain ws w where vs: "vs = ws @ [w]" and len: "length ws = 65535"
    by (cases vs rule: rev_cases) auto
  from pushes_from_init [of ws] len have "sp (foldl vm_push init_vm ws) = 0"
    by (simp add: unat_eq_0 [symmetric])
  then show ?thesis by (simp add: vs vm_push_def)
qed

text \<open>
  Claim C4, as the code has it.  From the initial state (\<open>SP = 0xFFFF\<close>) any sequence of
  at most 65535 pushes with no pop in between succeeds and leaves \<open>SP = 65535 - n\<close>; the
  65536th push faults with \<open>STACK_OVERFLOW\<close>.  A push faults if and only if \<open>SP = 0\<close>
  at the moment of the push.
\<close>

theorem push_overflow_boundary:
  "(length vs \<le> 65535 \<longrightarrow>
      error (foldl vm_push init_vm vs) = VM_OK \<and>
      unat (sp (foldl vm_push init_vm vs)) = 65535 - length vs) \<and>
   (length vs = 65536 \<longrightarrow>
      error (foldl vm_push init_vm vs) = VM_ERROR_STACK_OVERFLOW) \<and>
   (error vm \<noteq> VM_ERROR_STACK_OVERFLOW \<longrightarrow>
      (error (vm_push vm v) = VM_ERROR_STACK_OVERFLOW) = (sp vm = 0))"
  using pushes_from_init [of vs] push_65536_overflows [of vs]
  by (simp add: vm_push_def)

theorem push_overflow_boundary_witness:
  "length [1, 2, 3 :: 8 word] \<le> 65535 \<and>
   error (foldl vm_push init_vm [1, 2, 3]) = VM_OK \<and>
   length (replicate 65536 (0 :: 8 word)) = 65536 \<and>
   error (foldl vm_push init_vm (replicate 65536 0)) = VM_ERROR_STACK_OVERFLOW \<and>
   error init_vm \<noteq> VM_ERROR_STACK_OVERFLOW \<and>
   error (vm_push init_vm 0) \<noteq> VM_ERROR_STACK_OVERFLOW"
  using push_overflow_boundary [of "[1, 2, 3]" init_vm 0]
    push_overflow_boundary [of "replicate 65536 0" init_vm 0]
  by (simp add: init_vm_def)

text \<open>
  Claim C4 as the specification words it lets 65536 pushes succeed.  After 65535 pushes
  \<open>SP\<close> is 0, and the 65536th push is the one that faults.
\<close>

theorem push_65536_counterexample:
  "error (foldl vm_push init_vm (replicate 65535 0)) = VM_OK \<and>
   sp (foldl vm_push init_vm (replicate 65535 0)) = 0 \<and>
   error (foldl vm_push init_vm (replicate 65536 0)) = VM_ERROR_STACK_OVERFLOW"
  using pushes_from_init [of "replicate 65535 0"] push_65536_overflows [of "replicate 65536 0"]
  by (simp add: unat_eq_0 [symmetric])

section \<open>Properties of the engine\<close>

lemma boot_simps:
  "pc (boot bytes) = 0" "sp (boot bytes) = VM_STACK_TOP" "running (boot bytes)"
  "error (boot bytes) = VM_OK"
  "memory (boot bytes) a = (if unat a < length bytes then bytes ! unat a else 0)"
  by (simp_all add: boot_def load_program_def init_vm_def Let_def)

lemma fresh_io_simps:
  "\<not> waiting_for_input fresh_io" "\<not> key_available fresh_io"
  by (simp_all add: fresh_io_def platform_io_init_def)

lemma pc_bound: "\<not> 65536 \<le> unat (w :: 16 word)"
  using unsigned_less [of w, where 'a = nat] by simp

lemma vm_fetch_execute_eq:
  "vm_fetch_execute vm ctx = vm_execute (memory vm (pc vm)) (vm\<lparr>pc := pc vm + 1\<rparr>) ctx"
  by (simp add: vm_fetch_execute_def pc_bound)

lemmas exec_defs = vm_fetch_execute_eq vm_execute_def vm_read16_def vm_push_def vm_pop_def
  Let_def boot_simps

lemmas io_defs = handle_platform_io_def platform_io_is_waiting_for_input_def fresh_io_def
  platform_io_init_def

lemma vm_pop_memory: "memory (snd (vm_pop vm)) = memory vm"
  by (simp add: vm_pop_def)

text \<open>
  A run that has returned is the same run whatever the host would have delivered
  afterwards: further batches change nothing.
\<close>

lemma run_vm_stopped:
  "\<not> (running vm \<and> error vm = VM_OK) \<Longrightarrow> run_vm bs vm ctx = Returned (vm, ctx)"
  by (cases bs) auto

lemma run_vm_more_batches:
  "run_vm bs vm ctx = Returned r \<Longrightarrow> run_vm (bs @ later) vm ctx = Returned r"
proof (induction bs arbitrary: vm ctx)
  case Nil
  then show ?case by (auto simp: run_vm_stopped split: if_splits)
next
  case (Cons b bs)
  show ?case
  proof (cases "running vm \<and> error vm = VM_OK")
    case False
    with Cons.prems show ?thesis by (simp add: run_vm_stopped)
  next
    case True
    obtain ok ctx1 where pe: "platform_io_process_events b ctx = (ok, ctx1)" by force
    show ?thesis
    proof (cases ok)
      case False
      with Cons.prems True pe show ?thesis by simp
    next
      case ok: True
      show ?thesis
      proof (cases "platform_io_is_waiting_for_input ctx1")
        case True
        with Cons.prems \<open>running vm \<and> error vm = VM_OK\<close> pe ok Cons.IH show ?thesis by simp
      next
        case False
        with Cons.prems \<open>running vm \<and> error vm = VM_OK\<close> pe ok Cons.IH show ?thesis
          by (auto split: option.splits if_splits)
      qed
    qed
  qed
qed

subsection \<open>CALL and RET\<close>

lemma join_bytes:
  "push_bit 8 (ucast (ucast (drop_bit 8 w AND 0xFF) :: 8 word))
     OR ucast (ucast (w AND 0xFF) :: 8 word) = (w :: 16 word)"
proof -
  have m: "(0xFF :: 16 word) = mask 8" by (simp add: mask_eq_exp_minus_1)
  show ?thesis unfolding m
    by (rule bit_word_eqI) (auto simp: bit_simps)
qed

lemma ucast_low_byte: "(ucast (w AND 0xFF) :: 8 word) = ucast (w :: 16 word)"
proof -
  have m: "(0xFF :: 16 word) = mask 8" by (simp add: mask_eq_exp_minus_1)
  show ?thesis unfolding m by (rule bit_word_eqI) (auto simp: bit_simps)
qed

lemma join_bytes_plain:
  "push_bit 8 (ucast (ucast (drop_bit 8 w) :: 8 word)) OR ucast (ucast w :: 8 word)
     = (w :: 16 word)"
  using join_bytes [of w] by (simp add: ucast_low_byte)

lemma call_step:
  assumes "memory vm (pc vm) = OP_CALL" and "pc vm \<noteq> 0xFFFE" and "2 \<le> sp vm"
  shows "vm_fetch_execute vm ctx =
     Some (vm\<lparr>pc := ucast (memory vm (pc vm + 1)) OR push_bit 8 (ucast (memory vm (pc vm + 2))),
              memory := (memory vm)(sp vm := ucast ((pc vm + 3) AND 0xFF),
                                    sp vm - 1 := ucast (drop_bit 8 (pc vm + 3) AND 0xFF)),
              sp := sp vm - 2\<rparr>, ctx)"
proof -
  have a: "unat (pc vm + 1) < 65535"
  proof -
    have "pc vm + 1 \<noteq> 0xFFFF"
    proof
      assume "pc vm + 1 = 0xFFFF"
      then have "pc vm = 0xFFFF - 1" by (simp add: eq_diff_eq)
      then show False using assms(2) by simp
    qed
    then show ?thesis using unsigned_less [of "pc vm + 1", where 'a = nat]
      by (simp add: word_unat_eq_iff)
  qed
  have b: "sp vm \<noteq> 0" "sp vm - 1 \<noteq> 0"
    using assms(3) by (auto simp: word_le_nat_alt unat_minus_one word_unat_eq_iff)
  show ?thesis using assms(1) a b
    by (simp add: vm_fetch_execute_eq vm_execute_def vm_read16_def vm_push_def Let_def)
      (rule vm_t.equality; simp add: add.commute)
qed

lemma ret_step:
  assumes "memory vm (pc vm) = OP_RET" and "sp vm < 0xFFFE"
  shows "vm_fetch_execute vm ctx =
     Some (vm\<lparr>pc := push_bit 8 (ucast (memory vm (sp vm + 1))) OR ucast (memory vm (sp vm + 2)),
              sp := sp vm + 2\<rparr>, ctx)"
proof -
  have u: "unat (sp vm) < 65534" using assms(2) by (simp add: word_less_nat_alt)
  then have u1: "unat (sp vm + 1) = unat (sp vm) + 1" by (simp add: unat_word_ariths)
  have "\<not> 0xFFFF \<le> sp vm" "\<not> 0xFFFF \<le> sp vm + 1"
    using u u1 by (simp_all add: word_le_nat_alt)
  then show ?thesis using assms(1)
    by (simp add: vm_fetch_execute_eq vm_execute_def vm_pop_def Let_def)
      (rule vm_t.equality; simp add: add.commute)
qed

text \<open>
  Claim C1.  Let \<^verbatim>\<open>CALL\<close> be fetched at \<open>pc vm\<close>, with its operand readable and room for
  two bytes on the stack, and let \<open>vm1\<close> be the machine after it.  \<^verbatim>\<open>CALL\<close> has pushed the
  low byte of the return address \<open>pc vm + 3\<close> first (at the old \<open>SP\<close>) and the high byte
  second (one below) and has jumped to its operand.  Let \<open>vm2\<close> be the machine when the
  subroutine, however long it ran and whatever the host did meanwhile, arrives at a
  \<^verbatim>\<open>RET\<close> with the stack balanced: \<open>SP\<close> as \<^verbatim>\<open>CALL\<close> left it and the two
  return-address bytes untouched.  Then the first pop of \<^verbatim>\<open>RET\<close> yields the high byte and
  the second the low byte, and \<^verbatim>\<open>RET\<close> sets \<open>PC\<close> to \<open>pc vm + 3\<close>, the instruction
  right after the three-byte \<^verbatim>\<open>CALL\<close>, with \<open>SP\<close> back where it was before the call.
\<close>

theorem call_ret_mirror:
  assumes call: "memory vm (pc vm) = OP_CALL"
    and operand: "pc vm \<noteq> 0xFFFE"
    and room: "2 \<le> sp vm"
    and enter: "vm_fetch_execute vm ctx = Some (vm1, ctx1)"
    and balanced: "sp vm2 = sp vm1"
    and intact: "memory vm2 (sp vm) = memory vm1 (sp vm)"
                "memory vm2 (sp vm - 1) = memory vm1 (sp vm - 1)"
    and ret: "memory vm2 (pc vm2) = OP_RET"
  shows "pc vm1 = ucast (memory vm (pc vm + 1)) OR push_bit 8 (ucast (memory vm (pc vm + 2))) \<and>
         sp vm1 = sp vm - 2 \<and>
         memory vm1 (sp vm) = ucast (pc vm + 3) \<and>
         memory vm1 (sp vm - 1) = ucast (drop_bit 8 (pc vm + 3)) \<and>
         fst (vm_pop (vm2\<lparr>pc := pc vm2 + 1\<rparr>)) = ucast (drop_bit 8 (pc vm + 3)) \<and>
         fst (vm_pop (snd (vm_pop (vm2\<lparr>pc := pc vm2 + 1\<rparr>)))) = ucast (pc vm + 3) \<and>
         (\<exists>vm3. vm_fetch_execute vm2 ctx2 = Some (vm3, ctx2) \<and>
                pc vm3 = pc vm + 3 \<and> sp vm3 = sp vm \<and> error vm3 = error vm2 \<and>
                memory vm3 = memory vm2)"
proof -
  have vm1: "vm1 = vm\<lparr>pc := ucast (memory vm (pc vm + 1)) OR push_bit 8 (ucast (memory vm (pc vm + 2))),
              memory := (memory vm)(sp vm := ucast ((pc vm + 3) AND 0xFF),
                                    sp vm - 1 := ucast (drop_bit 8 (pc vm + 3) AND 0xFF)),
              sp := sp vm - 2\<rparr>"
    using call_step [OF call operand room, of ctx] enter by simp
  have u: "2 \<le> unat (sp vm)" using room by (simp add: word_le_nat_alt)
  have ub: "unat (sp vm) < 65536" using unsigned_less [of "sp vm", where 'a = nat] by simp
  have u2: "unat (sp vm - 2) = unat (sp vm) - 2"
    using u by (simp add: unat_sub word_le_nat_alt)
  have ne: "sp vm - 1 \<noteq> sp vm" by simp
  have lo: "memory vm1 (sp vm) = ucast (pc vm + 3)"
    using ne by (simp add: vm1 ucast_low_byte)
  have hi: "memory vm1 (sp vm - 1) = ucast (drop_bit 8 (pc vm + 3))"
    by (simp add: vm1 ucast_low_byte)
  have sp2: "sp vm2 = sp vm - 2" using balanced by (simp add: vm1)
  have lt: "sp vm2 < 0xFFFE" using u ub u2 by (simp add: sp2 word_less_nat_alt)
  have a1: "sp vm2 + 1 = sp vm - 1" and a2: "sp vm2 + 2 = sp vm" by (simp_all add: sp2)
  have lt1: "sp vm2 < 0xFFFF" and lt2: "sp vm2 + 1 < 0xFFFF"
    using u ub u2 by (simp_all add: sp2 word_less_nat_alt unat_minus_one unat_sub word_le_nat_alt)
  have p1: "vm_pop (vm2\<lparr>pc := pc vm2 + 1\<rparr>) =
              (memory vm2 (sp vm - 1), vm2\<lparr>pc := pc vm2 + 1, sp := sp vm - 1\<rparr>)"
    using lt1 by (simp add: vm_pop_ok a1)
  have p2: "fst (vm_pop (vm2\<lparr>pc := pc vm2 + 1, sp := sp vm - 1\<rparr>)) = memory vm2 (sp vm)"
  proof -
    have "sp vm - 1 < 0xFFFF" using lt2 by (simp only: a1)
    then show ?thesis
      using vm_pop_ok [of "vm2\<lparr>pc := pc vm2 + 1, sp := sp vm - 1\<rparr>"] by simp
  qed
  have r: "vm_fetch_execute vm2 ctx2 =
     Some (vm2\<lparr>pc := push_bit 8 (ucast (memory vm2 (sp vm2 + 1))) OR ucast (memory vm2 (sp vm2 + 2)),
              sp := sp vm2 + 2\<rparr>, ctx2)"
    by (rule ret_step [OF ret lt])
  show ?thesis
    using lo hi intact
    by (simp add: vm1 [THEN arg_cong, of pc] vm1 [THEN arg_cong, of sp] p1 p2 r a1 a2
        join_bytes_plain)
qed

theorem call_ret_mirror_witness:
  "memory (boot call_demo) (pc (boot call_demo)) = OP_CALL \<and>
   pc (boot call_demo) \<noteq> 0xFFFE \<and> 2 \<le> sp (boot call_demo) \<and>
   vm_fetch_execute (boot call_demo) fresh_io = Some (call_demo_entered, fresh_io) \<and>
   vm_steps (Suc (Suc 0)) call_demo_entered fresh_io = Some (call_demo_at_ret, fresh_io) \<and>
   sp call_demo_at_ret = sp call_demo_entered \<and>
   memory call_demo_at_ret (pc call_demo_at_ret) = OP_RET \<and>
   (\<exists>vm3. vm_fetch_execute call_demo_at_ret fresh_io = Some (vm3, fresh_io) \<and>
          pc vm3 = 3 \<and> sp vm3 = VM_STACK_TOP \<and> memory vm3 (pc vm3) = OP_HALT)"
proof -
  have h1: "memory (boot call_demo) (pc (boot call_demo)) = OP_CALL"
    by (simp add: boot_simps call_demo_def)
  have h2: "pc (boot call_demo) \<noteq> 0xFFFE" by (simp add: boot_simps)
  have h3: "2 \<le> sp (boot call_demo)" by (simp add: boot_simps)
  have h4: "vm_fetch_execute (boot call_demo) fresh_io = Some (call_demo_entered, fresh_io)"
    by (simp add: exec_defs call_demo_def call_demo_entered_def)
  have h5: "vm_steps (Suc (Suc 0)) call_demo_entered fresh_io = Some (call_demo_at_ret, fresh_io)"
    by (simp add: exec_defs call_demo_def call_demo_entered_def call_demo_at_ret_def)
  have h6: "sp call_demo_at_ret = sp call_demo_entered"
    by (simp add: call_demo_at_ret_def)
  have h7: "memory call_demo_at_ret (sp (boot call_demo))
              = memory call_demo_entered (sp (boot call_demo))"
    "memory call_demo_at_ret (sp (boot call_demo) - 1)
              = memory call_demo_entered (sp (boot call_demo) - 1)"
    by (simp_all add: call_demo_at_ret_def boot_simps)
  have h8: "memory call_demo_at_ret (pc call_demo_at_ret) = OP_RET"
    by (simp add: call_demo_at_ret_def call_demo_entered_def boot_simps call_demo_def)
  from call_ret_mirror [OF h1 h2 h3 h4 h6 h7 h8, of fresh_io]
  obtain vm3 where v: "vm_fetch_execute call_demo_at_ret fresh_io = Some (vm3, fresh_io)"
    "pc vm3 = pc (boot call_demo) + 3" "sp vm3 = sp (boot call_demo)"
    "memory vm3 = memory call_demo_at_ret" by blast
  have "pc vm3 = 3 \<and> sp vm3 = VM_STACK_TOP \<and> memory vm3 (pc vm3) = OP_HALT"
    by (simp add: v boot_simps call_demo_at_ret_def call_demo_entered_def call_demo_def)
  with v(1) have "\<exists>vm3. vm_fetch_execute call_demo_at_ret fresh_io = Some (vm3, fresh_io) \<and>
          pc vm3 = 3 \<and> sp vm3 = VM_STACK_TOP \<and> memory vm3 (pc vm3) = OP_HALT" by blast
  with h1 h2 h3 h4 h5 h6 h8 show ?thesis by (intro conjI)
qed

subsection \<open>DIV and MOD\<close>

lemma div_op_zero:
  "fst (vm_pop vm) = 0 \<Longrightarrow>
     div_op f vm = (snd (vm_pop (snd (vm_pop vm))))\<lparr>error := VM_ERROR_DIVISION_BY_ZERO\<rparr>"
  by (simp add: div_op_def split_beta Let_def)

text \<open>
  Claim C7.  Take any iteration of the loop that reaches the dispatch (the machine is
  running without error, the host neither shuts down nor is waited for) with \<^verbatim>\<open>DIV\<close> or
  \<^verbatim>\<open>MOD\<close> at \<open>PC\<close>, and let the first pop, the divisor, yield 0.  Then \<^verbatim>\<open>run_vm\<close>
  returns from this very iteration, whatever the host would deliver afterwards: the state
  returned is the one reached by the two pops with the error slot set to
  \<^verbatim>\<open>DIVISION_BY_ZERO\<close>, so \<open>SP\<close> is at the position after the pops and memory is as it
  was, nothing having been pushed.
\<close>

theorem div_mod_by_zero_stops:
  assumes "running vm" and "error vm = VM_OK"
    and "platform_io_process_events batch ctx = (True, ctx1)"
    and "\<not> platform_io_is_waiting_for_input ctx1"
    and "memory vm (pc vm) = OP_DIV \<or> memory vm (pc vm) = OP_MOD"
    and "fst (vm_pop (vm\<lparr>pc := pc vm + 1\<rparr>)) = 0"
  shows "run_vm (batch # rest) vm ctx =
           Returned ((snd (vm_pop (snd (vm_pop (vm\<lparr>pc := pc vm + 1\<rparr>)))))
                       \<lparr>error := VM_ERROR_DIVISION_BY_ZERO\<rparr>, ctx1) \<and>
         memory (snd (vm_pop (snd (vm_pop (vm\<lparr>pc := pc vm + 1\<rparr>))))) = memory vm"
proof -
  let ?vm' = "vm\<lparr>pc := pc vm + 1\<rparr>"
  have "vm_fetch_execute vm ctx1 =
          Some ((snd (vm_pop (snd (vm_pop ?vm'))))\<lparr>error := VM_ERROR_DIVISION_BY_ZERO\<rparr>, ctx1)"
    using assms(5,6) by (auto simp: vm_fetch_execute_eq vm_execute_def div_op_zero)
  then show ?thesis using assms(1-4) by (simp add: vm_pop_memory)
qed

theorem div_mod_by_zero_stops_witness:
  "running div_demo_at_div \<and> error div_demo_at_div = VM_OK \<and>
   platform_io_process_events [] fresh_io = (True, fresh_io) \<and>
   \<not> platform_io_is_waiting_for_input fresh_io \<and>
   memory div_demo_at_div (pc div_demo_at_div) = OP_DIV \<and>
   fst (vm_pop (div_demo_at_div\<lparr>pc := pc div_demo_at_div + 1\<rparr>)) = 0 \<and>
   vm_steps (Suc (Suc 0)) (boot div_demo) fresh_io = Some (div_demo_at_div, fresh_io) \<and>
   run_vm [[], []] div_demo_at_div fresh_io =
     Returned (div_demo_at_div\<lparr>pc := 5, sp := VM_STACK_TOP,
                                 error := VM_ERROR_DIVISION_BY_ZERO\<rparr>, fresh_io)"
proof -
  have h1: "running div_demo_at_div" and h2: "error div_demo_at_div = VM_OK"
    by (simp_all add: div_demo_at_div_def boot_simps)
  have h3: "platform_io_process_events [] fresh_io = (True, fresh_io)" by simp
  have h4: "\<not> platform_io_is_waiting_for_input fresh_io"
    by (simp add: platform_io_is_waiting_for_input_def fresh_io_simps)
  have h5: "memory div_demo_at_div (pc div_demo_at_div) = OP_DIV"
    by (simp add: div_demo_at_div_def boot_simps div_demo_def)
  have h6: "fst (vm_pop (div_demo_at_div\<lparr>pc := pc div_demo_at_div + 1\<rparr>)) = 0"
    by (simp add: div_demo_at_div_def vm_pop_def)
  have h7: "vm_steps (Suc (Suc 0)) (boot div_demo) fresh_io = Some (div_demo_at_div, fresh_io)"
    by (simp add: exec_defs div_demo_def div_demo_at_div_def)
  have "snd (vm_pop (snd (vm_pop (div_demo_at_div\<lparr>pc := pc div_demo_at_div + 1\<rparr>))))
          = div_demo_at_div\<lparr>pc := 5, sp := VM_STACK_TOP\<rparr>"
    by (simp add: div_demo_at_div_def vm_pop_def)
  with div_mod_by_zero_stops [OF h1 h2 h3 h4 disjI1 [OF h5] h6, of "[[]]"]
  have "run_vm [[], []] div_demo_at_div fresh_io =
     Returned (div_demo_at_div\<lparr>pc := 5, sp := VM_STACK_TOP,
                                 error := VM_ERROR_DIVISION_BY_ZERO\<rparr>, fresh_io)"
    by simp
  with h1 h2 h3 h4 h5 h6 h7 show ?thesis by (intro conjI)
qed

text \<open>
  Claim C8.  For all bytes \<open>a\<close> and \<open>b\<close> with \<open>b \<noteq> 0\<close>, the program
  \<^verbatim>\<open>PUSH a; PUSH b; DIV; HALT\<close> halts with the quotient \<open>q\<close> on top of the stack and
  \<^verbatim>\<open>PUSH a; PUSH b; MOD; HALT\<close> with the remainder \<open>r\<close>, and \<open>q * b + r\<close> is \<open>a\<close> in
  8-bit arithmetic, that is, congruent to \<open>a\<close> modulo 256.
\<close>

theorem div_mod_reconstruct:
  "b \<noteq> 0 \<Longrightarrow>
     halted_top (run_vm [[], [], [], []] (boot [OP_PUSH, a, OP_PUSH, b, OP_DIV, OP_HALT]) fresh_io)
       = Some (a div b) \<and>
     halted_top (run_vm [[], [], [], []] (boot [OP_PUSH, a, OP_PUSH, b, OP_MOD, OP_HALT]) fresh_io)
       = Some (a mod b) \<and>
     (a div b) * b + a mod b = a \<and>
     (unat (a div b) * unat b + unat (a mod b)) mod 256 = unat a"
  apply (intro conjI)
  subgoal by (simp add: boot_simps fresh_io_simps platform_io_is_waiting_for_input_def
      vm_fetch_execute_def vm_execute_def vm_push_def vm_pop_def div_op_def)
  subgoal by (simp add: boot_simps fresh_io_simps platform_io_is_waiting_for_input_def
      vm_fetch_execute_def vm_execute_def vm_push_def vm_pop_def div_op_def)
  subgoal by (rule div_mult_mod_eq)
  subgoal using unsigned_less [of a, where 'a = nat] by (simp add: unat_div unat_mod)
  done

theorem div_mod_reconstruct_witness:
  "(7 :: 8 word) \<noteq> 0 \<and>
   halted_top (run_vm [[], [], [], []] (boot [OP_PUSH, 200, OP_PUSH, 7, OP_DIV, OP_HALT]) fresh_io)
     = Some 28 \<and>
   halted_top (run_vm [[], [], [], []] (boot [OP_PUSH, 200, OP_PUSH, 7, OP_MOD, OP_HALT]) fresh_io)
     = Some 4 \<and>
   (28 :: 8 word) * 7 + 4 = 200"
  using div_mod_reconstruct [of 7 200] by simp

subsection \<open>Shifts\<close>

lemma c_shr_wide: "8 \<le> unat b \<Longrightarrow> unat b < 32 \<Longrightarrow> c_shr a b = Some 0"
proof -
  assume b: "8 \<le> unat b" "unat b < 32"
  have "uint a < 2 ^ 8" using uint_lt2p [of a] by simp
  also have "(2 :: int) ^ 8 \<le> 2 ^ unat b" using b(1) by (intro power_increasing) simp_all
  finally have "uint a div 2 ^ unat b = 0" by (simp add: div_pos_pos_trivial)
  then show ?thesis using b(2) by (simp add: c_shr_def)
qed

lemma c_shl_wide: "8 \<le> unat b \<Longrightarrow> unat b < 32 \<Longrightarrow> c_shl a b = Some 0"
proof -
  assume b: "8 \<le> unat b" "unat b < 32"
  have z: "(2 :: 8 word) ^ unat b = 0" using b(1) by (simp add: exp_eq_zero_iff)
  have "(word_of_int (uint a * 2 ^ unat b) :: 8 word) = a * 2 ^ unat b" by simp
  also have "\<dots> = 0" by (simp only: z mult_zero_right)
  finally have "(word_of_int (uint a * 2 ^ unat b) :: 8 word) = 0" .
  then show ?thesis using b(2) by (simp add: c_shl_def)
qed

text \<open>
  Claim C9, as the code has it.  For all bytes \<open>a\<close> and \<open>b\<close> with \<open>8 \<le> b \<le> 31\<close>,
  \<^verbatim>\<open>PUSH a; PUSH b; SHL; HALT\<close> halts with 0 on top of the stack, and so does
  \<^verbatim>\<open>PUSH a; PUSH b; SHR; HALT\<close>: the result is the 8-bit logical shift, and the count is
  not reduced modulo 8.
\<close>

theorem wide_shift_pushes_zero:
  assumes "8 \<le> unat b" and "unat b < 32"
  shows "halted_top (run_vm [[], [], [], []] (boot [OP_PUSH, a, OP_PUSH, b, OP_SHL, OP_HALT]) fresh_io)
           = Some 0 \<and>
         halted_top (run_vm [[], [], [], []] (boot [OP_PUSH, a, OP_PUSH, b, OP_SHR, OP_HALT]) fresh_io)
           = Some 0"
  using c_shr_wide [OF assms, of a] c_shl_wide [OF assms, of a]
  by (simp add: exec_defs io_defs shift_op_def)

theorem wide_shift_pushes_zero_witness:
  "8 \<le> unat (31 :: 8 word) \<and> unat (31 :: 8 word) < 32 \<and>
   halted_top (run_vm [[], [], [], []] (boot [OP_PUSH, 255, OP_PUSH, 31, OP_SHL, OP_HALT]) fresh_io)
           = Some 0 \<and>
   halted_top (run_vm [[], [], [], []] (boot [OP_PUSH, 255, OP_PUSH, 31, OP_SHR, OP_HALT]) fresh_io)
           = Some 0"
  using wide_shift_pushes_zero [of 31 255] by simp

text \<open>
  Claim C9 as the specification words it covers every \<open>b \<ge> 8\<close>.  With \<open>b = 32\<close> the
  operand \<open>a\<close>, promoted to a 32-bit \<^verbatim>\<open>int\<close>, is shifted by its full width: the code
  fixes no result (a processor that reduces the count modulo 32 pushes \<open>a\<close> itself), the
  run of \<^verbatim>\<open>PUSH 1; PUSH 32; SHL; HALT\<close> has none, and nothing makes it push 0.
\<close>

theorem shift_by_32_counterexample:
  "8 \<le> unat (32 :: 8 word) \<and>
   run_vm [[], [], [], []] (boot [OP_PUSH, 1, OP_PUSH, 32, OP_SHL, OP_HALT]) fresh_io
     = Undefined_Behaviour \<and>
   run_vm [[], [], [], []] (boot [OP_PUSH, 1, OP_PUSH, 32, OP_SHR, OP_HALT]) fresh_io
     = Undefined_Behaviour"
  by (simp add: exec_defs io_defs shift_op_def c_shl_def c_shr_def)

subsection \<open>Stack underflow inside an instruction\<close>

lemma near_top: "0xFFFE \<le> (s :: 16 word) \<Longrightarrow> s = 0xFFFE \<or> s = 0xFFFF"
proof -
  assume "0xFFFE \<le> s"
  then have "65534 \<le> unat s" by (simp add: word_le_nat_alt)
  moreover have "unat s < 65536" using unsigned_less [of s, where 'a = nat] by simp
  ultimately have "unat s = 65534 \<or> unat s = 65535" by arith
  then show ?thesis by (auto simp: word_unat_eq_iff)
qed

lemma unary_op_underflow:
  "sp vm = VM_STACK_TOP \<Longrightarrow>
     unary_op f vm = vm\<lparr>error := VM_ERROR_STACK_UNDERFLOW,
                        memory := (memory vm)(0xFFFF := f 0), sp := 0xFFFE\<rparr>"
  by (simp add: unary_op_def vm_pop_def vm_push_def)

lemma binary_op_underflow:
  "0xFFFE \<le> sp vm \<Longrightarrow>
     binary_op f vm =
       vm\<lparr>error := VM_ERROR_STACK_UNDERFLOW,
          memory := (memory vm)(0xFFFF := f 0 (if sp vm = 0xFFFF then 0 else memory vm 0xFFFF)),
          sp := 0xFFFE\<rparr>"
  by (drule near_top) (auto simp: binary_op_def vm_pop_def vm_push_def)

lemma div_op_underflow:
  "sp vm = 0xFFFE \<Longrightarrow> memory vm 0xFFFF \<noteq> 0 \<Longrightarrow>
     div_op f vm =
       vm\<lparr>error := VM_ERROR_STACK_UNDERFLOW,
          memory := (memory vm)(0xFFFF := f 0 (memory vm 0xFFFF)), sp := 0xFFFE\<rparr>"
  by (simp add: div_op_def vm_pop_def vm_push_def)

text \<open>
  Claim C10, as the code has it.  A failed pop yields 0, records \<^verbatim>\<open>STACK_UNDERFLOW\<close>
  and leaves \<open>SP\<close> alone, and the instructions that push after popping go on to push:
  \<^verbatim>\<open>DUP\<close> on the empty stack pushes two zeros; \<^verbatim>\<open>ADD\<close> and every other two-operand
  arithmetic, logic or comparison instruction with fewer than two bytes on the stack
  pushes its result at \<open>0xFFFF\<close>; so do \<^verbatim>\<open>NEG\<close> and \<^verbatim>\<open>NOT\<close> on the empty stack,
  \<^verbatim>\<open>SWAP\<close> (two pushes), \<^verbatim>\<open>LOAD_IND\<close> (which pushes the byte at the address built
  from what the pops returned), \<^verbatim>\<open>DIV\<close> and \<^verbatim>\<open>MOD\<close> when the one byte present, the
  divisor, is not 0, and the shifts when the count read is below 32.  In each case the
  error slot holds \<^verbatim>\<open>STACK_UNDERFLOW\<close> while \<open>SP\<close> and stack memory have been changed
  after the error was recorded.  \<^verbatim>\<open>DIV\<close> and \<^verbatim>\<open>MOD\<close> on the empty stack read the
  divisor 0: they end with \<^verbatim>\<open>DIVISION_BY_ZERO\<close> and push nothing.  No other instruction
  of the engine, and no host operation, pops before it pushes.
\<close>

theorem underflow_still_pushes:
  "(sp vm = VM_STACK_TOP \<longrightarrow> vm_pop vm = (0, vm\<lparr>error := VM_ERROR_STACK_UNDERFLOW\<rparr>)) \<and>
   (memory vm (pc vm) = OP_DUP \<and> sp vm = VM_STACK_TOP \<longrightarrow>
      vm_fetch_execute vm ctx =
        Some (vm\<lparr>pc := pc vm + 1, error := VM_ERROR_STACK_UNDERFLOW,
                 memory := (memory vm)(0xFFFF := 0, 0xFFFE := 0), sp := 0xFFFD\<rparr>, ctx)) \<and>
   (memory vm (pc vm) = OP_ADD \<and> 0xFFFE \<le> sp vm \<longrightarrow>
      vm_fetch_execute vm ctx =
        Some (vm\<lparr>pc := pc vm + 1, error := VM_ERROR_STACK_UNDERFLOW,
                 memory := (memory vm)
                    (0xFFFF := 0 + (if sp vm = 0xFFFF then 0 else memory vm 0xFFFF)),
                 sp := 0xFFFE\<rparr>, ctx)) \<and>
   (memory vm (pc vm) \<in> pushing_alu_ops \<and> 0xFFFE \<le> sp vm \<longrightarrow>
      (\<exists>r. vm_fetch_execute vm ctx =
        Some (vm\<lparr>pc := pc vm + 1, error := VM_ERROR_STACK_UNDERFLOW,
                 memory := (memory vm)(0xFFFF := r), sp := 0xFFFE\<rparr>, ctx))) \<and>
   (memory vm (pc vm) \<in> {OP_NEG, OP_NOT} \<and> sp vm = VM_STACK_TOP \<longrightarrow>
      (\<exists>r. vm_fetch_execute vm ctx =
        Some (vm\<lparr>pc := pc vm + 1, error := VM_ERROR_STACK_UNDERFLOW,
                 memory := (memory vm)(0xFFFF := r), sp := 0xFFFE\<rparr>, ctx))) \<and>
   (memory vm (pc vm) = OP_SWAP \<and> 0xFFFE \<le> sp vm \<longrightarrow>
      vm_fetch_execute vm ctx =
        Some (vm\<lparr>pc := pc vm + 1, error := VM_ERROR_STACK_UNDERFLOW,
                 memory := (memory vm)
                    (0xFFFF := (if sp vm = 0xFFFF then 0 else memory vm 0xFFFF), 0xFFFE := 0),
                 sp := 0xFFFD\<rparr>, ctx)) \<and>
   (memory vm (pc vm) \<in> {OP_DIV, OP_MOD} \<and> sp vm = 0xFFFE \<and> memory vm 0xFFFF \<noteq> 0 \<longrightarrow>
      (\<exists>r. vm_fetch_execute vm ctx =
        Some (vm\<lparr>pc := pc vm + 1, error := VM_ERROR_STACK_UNDERFLOW,
                 memory := (memory vm)(0xFFFF := r), sp := 0xFFFE\<rparr>, ctx))) \<and>
   (memory vm (pc vm) \<in> {OP_SHL, OP_SHR} \<and> 0xFFFE \<le> sp vm \<and>
    (if sp vm = 0xFFFF then 0 else unat (memory vm 0xFFFF)) < 32 \<longrightarrow>
      vm_fetch_execute vm ctx =
        Some (vm\<lparr>pc := pc vm + 1, error := VM_ERROR_STACK_UNDERFLOW,
                 memory := (memory vm)(0xFFFF := 0), sp := 0xFFFE\<rparr>, ctx)) \<and>
   (memory vm (pc vm) \<in> {OP_DIV, OP_MOD} \<and> sp vm = VM_STACK_TOP \<longrightarrow>
      vm_fetch_execute vm ctx =
        Some (vm\<lparr>pc := pc vm + 1, error := VM_ERROR_DIVISION_BY_ZERO\<rparr>, ctx)) \<and>
   (memory vm (pc vm) = OP_LOAD_IND \<and> 0xFFFE \<le> sp vm \<longrightarrow>
      (\<exists>r. vm_fetch_execute vm ctx =
        Some (vm\<lparr>pc := pc vm + 1, error := VM_ERROR_STACK_UNDERFLOW,
                 memory := (memory vm)(0xFFFF := r), sp := 0xFFFE\<rparr>, ctx)))"
proof (intro conjI impI)
  show "vm_pop vm = (0, vm\<lparr>error := VM_ERROR_STACK_UNDERFLOW\<rparr>)" if "sp vm = VM_STACK_TOP"
    using that by (simp add: vm_pop_def)
next
  assume "memory vm (pc vm) = OP_DUP \<and> sp vm = VM_STACK_TOP"
  then show "vm_fetch_execute vm ctx =
        Some (vm\<lparr>pc := pc vm + 1, error := VM_ERROR_STACK_UNDERFLOW,
                 memory := (memory vm)(0xFFFF := 0, 0xFFFE := 0), sp := 0xFFFD\<rparr>, ctx)"
    by (simp add: vm_fetch_execute_eq vm_execute_def vm_pop_def vm_push_def)
next
  assume a: "memory vm (pc vm) = OP_ADD \<and> 0xFFFE \<le> sp vm"
  then have "0xFFFE \<le> sp (vm\<lparr>pc := pc vm + 1\<rparr>)" by simp
  from binary_op_underflow [OF this] a
  show "vm_fetch_execute vm ctx =
        Some (vm\<lparr>pc := pc vm + 1, error := VM_ERROR_STACK_UNDERFLOW,
                 memory := (memory vm)
                    (0xFFFF := 0 + (if sp vm = 0xFFFF then 0 else memory vm 0xFFFF)),
                 sp := 0xFFFE\<rparr>, ctx)"
    by (simp add: vm_fetch_execute_eq vm_execute_def)
next
  assume a: "memory vm (pc vm) \<in> pushing_alu_ops \<and> 0xFFFE \<le> sp vm"
  then have "0xFFFE \<le> sp (vm\<lparr>pc := pc vm + 1\<rparr>)" by simp
  note b = binary_op_underflow [OF this]
  from a have "\<exists>f. vm_fetch_execute vm ctx = Some (binary_op f (vm\<lparr>pc := pc vm + 1\<rparr>), ctx)"
    unfolding pushing_alu_ops_def vm_fetch_execute_eq vm_execute_def
    by (elim conjE insertE emptyE) (simp_all, blast+)
  then obtain f where "vm_fetch_execute vm ctx = Some (binary_op f (vm\<lparr>pc := pc vm + 1\<rparr>), ctx)" ..
  then show "\<exists>r. vm_fetch_execute vm ctx =
        Some (vm\<lparr>pc := pc vm + 1, error := VM_ERROR_STACK_UNDERFLOW,
                 memory := (memory vm)(0xFFFF := r), sp := 0xFFFE\<rparr>, ctx)"
    by (intro exI [where x = "f 0 (if sp vm = 0xFFFF then 0 else memory vm 0xFFFF)"]) (simp add: b)
next
  assume a: "memory vm (pc vm) \<in> {OP_NEG, OP_NOT} \<and> sp vm = VM_STACK_TOP"
  then have "sp (vm\<lparr>pc := pc vm + 1\<rparr>) = VM_STACK_TOP" by simp
  note b = unary_op_underflow [OF this]
  from a have "\<exists>f. vm_fetch_execute vm ctx = Some (unary_op f (vm\<lparr>pc := pc vm + 1\<rparr>), ctx)"
    unfolding vm_fetch_execute_eq vm_execute_def
    by (elim conjE insertE emptyE) (simp_all, blast+)
  then obtain f where "vm_fetch_execute vm ctx = Some (unary_op f (vm\<lparr>pc := pc vm + 1\<rparr>), ctx)" ..
  then show "\<exists>r. vm_fetch_execute vm ctx =
        Some (vm\<lparr>pc := pc vm + 1, error := VM_ERROR_STACK_UNDERFLOW,
                 memory := (memory vm)(0xFFFF := r), sp := 0xFFFE\<rparr>, ctx)"
    by (intro exI [where x = "f 0"]) (simp add: b)
next
  assume a: "memory vm (pc vm) = OP_SWAP \<and> 0xFFFE \<le> sp vm"
  then have "sp vm = 0xFFFE \<or> sp vm = 0xFFFF" using near_top by blast
  with a show "vm_fetch_execute vm ctx =
        Some (vm\<lparr>pc := pc vm + 1, error := VM_ERROR_STACK_UNDERFLOW,
                 memory := (memory vm)
                    (0xFFFF := (if sp vm = 0xFFFF then 0 else memory vm 0xFFFF), 0xFFFE := 0),
                 sp := 0xFFFD\<rparr>, ctx)"
    by (auto simp: vm_fetch_execute_eq vm_execute_def vm_pop_def vm_push_def)
next
  assume a: "memory vm (pc vm) \<in> {OP_DIV, OP_MOD} \<and> sp vm = 0xFFFE \<and> memory vm 0xFFFF \<noteq> 0"
  then have "sp (vm\<lparr>pc := pc vm + 1\<rparr>) = 0xFFFE" "memory (vm\<lparr>pc := pc vm + 1\<rparr>) 0xFFFF \<noteq> 0"
    by simp_all
  note b = div_op_underflow [OF this]
  from a have "\<exists>f. vm_fetch_execute vm ctx = Some (div_op f (vm\<lparr>pc := pc vm + 1\<rparr>), ctx)"
    unfolding vm_fetch_execute_eq vm_execute_def
    by (elim conjE insertE emptyE) (simp_all, blast+)
  then obtain f where "vm_fetch_execute vm ctx = Some (div_op f (vm\<lparr>pc := pc vm + 1\<rparr>), ctx)" ..
  then show "\<exists>r. vm_fetch_execute vm ctx =
        Some (vm\<lparr>pc := pc vm + 1, error := VM_ERROR_STACK_UNDERFLOW,
                 memory := (memory vm)(0xFFFF := r), sp := 0xFFFE\<rparr>, ctx)"
    by (intro exI [where x = "f 0 (memory vm 0xFFFF)"]) (simp add: b)
next
  assume a: "memory vm (pc vm) \<in> {OP_SHL, OP_SHR} \<and> 0xFFFE \<le> sp vm \<and>
    (if sp vm = 0xFFFF then 0 else unat (memory vm 0xFFFF)) < 32"
  then have s: "sp vm = 0xFFFE \<or> sp vm = 0xFFFF" using near_top by blast
  from a have o: "memory vm (pc vm) = OP_SHL \<or> memory vm (pc vm) = OP_SHR" by blast
  have z: "c_shl 0 b = Some 0" "c_shr 0 b = Some 0" if "unat b < 32" for b
    using that by (simp_all add: c_shl_def c_shr_def)
  from s o a show "vm_fetch_execute vm ctx =
        Some (vm\<lparr>pc := pc vm + 1, error := VM_ERROR_STACK_UNDERFLOW,
                 memory := (memory vm)(0xFFFF := 0), sp := 0xFFFE\<rparr>, ctx)"
    by (elim disjE conjE)
      (simp_all add: vm_fetch_execute_eq vm_execute_def shift_op_def vm_pop_def vm_push_def z)
next
  assume a: "memory vm (pc vm) \<in> {OP_DIV, OP_MOD} \<and> sp vm = VM_STACK_TOP"
  then have o: "memory vm (pc vm) = OP_DIV \<or> memory vm (pc vm) = OP_MOD" by blast
  from o a show "vm_fetch_execute vm ctx =
        Some (vm\<lparr>pc := pc vm + 1, error := VM_ERROR_DIVISION_BY_ZERO\<rparr>, ctx)"
    by (elim disjE conjE)
      (simp_all add: vm_fetch_execute_eq vm_execute_def div_op_def vm_pop_def)
next
  assume a: "memory vm (pc vm) = OP_LOAD_IND \<and> 0xFFFE \<le> sp vm"
  then have "sp vm = 0xFFFE \<or> sp vm = 0xFFFF" using near_top by blast
  then show "\<exists>r. vm_fetch_execute vm ctx =
        Some (vm\<lparr>pc := pc vm + 1, error := VM_ERROR_STACK_UNDERFLOW,
                 memory := (memory vm)(0xFFFF := r), sp := 0xFFFE\<rparr>, ctx)"
  proof
    assume "sp vm = 0xFFFE"
    with a show ?thesis
      by (intro exI [where x = "memory vm (ucast (memory vm 0xFFFF))"])
        (simp add: vm_fetch_execute_eq vm_execute_def vm_pop_def vm_push_def pc_bound
          not_le [symmetric])
  next
    assume "sp vm = 0xFFFF"
    with a show ?thesis
      by (intro exI [where x = "memory vm 0"])
        (simp add: vm_fetch_execute_eq vm_execute_def vm_pop_def vm_push_def pc_bound
          not_le [symmetric])
  qed
qed

theorem underflow_still_pushes_witness:
  "sp (boot [OP_DUP]) = VM_STACK_TOP \<and> memory (boot [OP_DUP]) (pc (boot [OP_DUP])) = OP_DUP \<and>
   vm_pop (boot [OP_DUP]) = (0, (boot [OP_DUP])\<lparr>error := VM_ERROR_STACK_UNDERFLOW\<rparr>) \<and>
   vm_fetch_execute (boot [OP_DUP]) fresh_io =
     Some ((boot [OP_DUP])\<lparr>pc := 1, error := VM_ERROR_STACK_UNDERFLOW,
              memory := (memory (boot [OP_DUP]))(0xFFFF := 0, 0xFFFE := 0), sp := 0xFFFD\<rparr>,
           fresh_io) \<and>
   memory (boot [OP_ADD]) (pc (boot [OP_ADD])) = OP_ADD \<and> 0xFFFE \<le> sp (boot [OP_ADD]) \<and>
   vm_fetch_execute (boot [OP_ADD]) fresh_io =
     Some ((boot [OP_ADD])\<lparr>pc := 1, error := VM_ERROR_STACK_UNDERFLOW,
              memory := (memory (boot [OP_ADD]))(0xFFFF := 0), sp := 0xFFFE\<rparr>, fresh_io)"
proof -
  have d: "sp (boot [OP_DUP]) = VM_STACK_TOP"
    "memory (boot [OP_DUP]) (pc (boot [OP_DUP])) = OP_DUP"
    by (simp_all add: boot_simps)
  have a: "memory (boot [OP_ADD]) (pc (boot [OP_ADD])) = OP_ADD" "0xFFFE \<le> sp (boot [OP_ADD])"
    by (simp_all add: boot_simps)
  from underflow_still_pushes [of "boot [OP_DUP]" fresh_io] d
  have "vm_pop (boot [OP_DUP]) = (0, (boot [OP_DUP])\<lparr>error := VM_ERROR_STACK_UNDERFLOW\<rparr>)"
    and "vm_fetch_execute (boot [OP_DUP]) fresh_io =
     Some ((boot [OP_DUP])\<lparr>pc := pc (boot [OP_DUP]) + 1, error := VM_ERROR_STACK_UNDERFLOW,
              memory := (memory (boot [OP_DUP]))(0xFFFF := 0, 0xFFFE := 0), sp := 0xFFFD\<rparr>,
           fresh_io)"
    by blast+
  moreover from underflow_still_pushes [of "boot [OP_ADD]" fresh_io] a
  have "vm_fetch_execute (boot [OP_ADD]) fresh_io =
     Some ((boot [OP_ADD])\<lparr>pc := pc (boot [OP_ADD]) + 1, error := VM_ERROR_STACK_UNDERFLOW,
              memory := (memory (boot [OP_ADD]))
                (0xFFFF := 0 + (if sp (boot [OP_ADD]) = 0xFFFF then 0
                                else memory (boot [OP_ADD]) 0xFFFF)),
              sp := 0xFFFE\<rparr>, fresh_io)"
    by blast
  ultimately show ?thesis using d a by (simp add: boot_simps(1,2))
qed

text \<open>
  Claim C10 as the specification words it covers every instruction and every
  two-operand ALU instruction.  \<^verbatim>\<open>DIV\<close> on the empty stack reads 0 as its divisor: the
  error slot ends as \<^verbatim>\<open>DIVISION_BY_ZERO\<close>, not \<^verbatim>\<open>STACK_UNDERFLOW\<close>, nothing is pushed,
  and \<open>SP\<close> and memory are as before.
\<close>

theorem div_on_empty_stack_counterexample:
  "sp (boot [OP_DIV]) = VM_STACK_TOP \<and>
   memory (boot [OP_DIV]) (pc (boot [OP_DIV])) = OP_DIV \<and>
   vm_fetch_execute (boot [OP_DIV]) fresh_io =
     Some ((boot [OP_DIV])\<lparr>pc := 1, error := VM_ERROR_DIVISION_BY_ZERO\<rparr>, fresh_io)"
  by (simp add: exec_defs div_op_def)

subsection \<open>The blocking character read\<close>

text \<open>
  Claim C2 against the code.  \<^verbatim>\<open>IO 0x02\<close> is two bytes long; by the time
  \<^verbatim>\<open>handle_platform_io\<close> runs, \<open>PC\<close> is two past the opcode, and \<^verbatim>\<open>vm->pc--\<close>
  (commented \<^verbatim>\<open>Retry this instruction until input is available\<close>) takes it back by one
  only.  On \<^verbatim>\<open>IO 0x02; HALT; HALT\<close> loaded at 0 the first dispatch sets the waiting
  flag and leaves \<open>PC = 1\<close>, the address of the operand byte \<open>0x02\<close>.  When a key (65)
  arrives, that byte is fetched as \<^verbatim>\<open>PUSH\<close> with the first \<^verbatim>\<open>HALT\<close> as its operand: the
  run halts with 1 on the stack, and the key is never read.
\<close>

theorem read_char_rewinds_into_operand:
  "vm_fetch_execute (boot read_char_demo) fresh_io =
     Some ((boot read_char_demo)\<lparr>pc := 1\<rparr>, fresh_io\<lparr>waiting_for_input := True\<rparr>) \<and>
   memory (boot read_char_demo) 1 = OP_PUSH \<and>
   halted_top (run_vm [[], [SDL_KEYDOWN 65], []] (boot read_char_demo) fresh_io) = Some 1"
  apply (intro conjI)
  subgoal by (simp add: exec_defs io_defs read_char_demo_def)
  subgoal by (simp add: boot_simps read_char_demo_def)
  subgoal by (simp add: exec_defs io_defs read_char_demo_def)
  done

subsection \<open>The exit code of the engine\<close>

lemma load_program_boot:
  "bytes \<noteq> [] \<Longrightarrow> load_program init_vm (Some bytes) = (VM_OK, boot bytes)"
  by (simp add: boot_def load_program_def Let_def)

text \<open>
  Claim C6, as the code has it.  For every run of the engine on a loaded image (a
  non-empty file, two arguments, the platform up), when \<^verbatim>\<open>run_vm\<close> returns, the process
  exits with code 0 whatever the error slot holds: \<^verbatim>\<open>HALT\<close>, \<^verbatim>\<open>VM_OK\<close> after a host
  shutdown or \<^verbatim>\<open>IO_EXIT\<close>, or any fault.  Only the line printed tells them apart.
\<close>

theorem kxn_main_exit_code:
  assumes "bytes \<noteq> []"
    and "run_vm batches (boot bytes) fresh_io = Returned (vm1, ctx1)"
  shows "kxn_main 2 True (Some bytes) batches =
           Returned (0, Running_VM #
             (if error vm1 = VM_ERROR_HALT then [VM_Halted_Normally]
              else if error vm1 \<noteq> VM_OK then [VM_Error (error vm1)]
              else []))"
  using assms
  by (simp add: kxn_main_def load_program_boot fresh_io_def platform_io_init_def)

theorem kxn_main_exit_code_witness:
  "[OP_HALT] \<noteq> [] \<and>
   run_vm [[]] (boot [OP_HALT]) fresh_io =
     Returned ((boot [OP_HALT])\<lparr>pc := 1, running := False, error := VM_ERROR_HALT\<rparr>, fresh_io) \<and>
   kxn_main 2 True (Some [OP_HALT]) [[]] = Returned (0, [Running_VM, VM_Halted_Normally]) \<and>
   [0xFF :: 8 word] \<noteq> [] \<and>
   run_vm [[]] (boot [0xFF]) fresh_io =
     Returned ((boot [0xFF])\<lparr>pc := 1, error := VM_ERROR_INVALID_OPCODE\<rparr>, fresh_io) \<and>
   kxn_main 2 True (Some [0xFF]) [[]] =
     Returned (0, [Running_VM, VM_Error VM_ERROR_INVALID_OPCODE])"
proof -
  have a: "run_vm [[]] (boot [OP_HALT]) fresh_io =
     Returned ((boot [OP_HALT])\<lparr>pc := 1, running := False, error := VM_ERROR_HALT\<rparr>, fresh_io)"
    by (simp add: exec_defs io_defs)
  have b: "run_vm [[]] (boot [0xFF]) fresh_io =
     Returned ((boot [0xFF])\<lparr>pc := 1, error := VM_ERROR_INVALID_OPCODE\<rparr>, fresh_io)"
    by (simp add: exec_defs io_defs)
  show ?thesis
    using kxn_main_exit_code [OF _ a] kxn_main_exit_code [OF _ b] a b by simp
qed

text \<open>
  Claim C6 as the specification words it has a fault exit with code 1.  The division by
  zero of \<^verbatim>\<open>PUSH 5; PUSH 0; DIV; HALT\<close> ends the run with \<^verbatim>\<open>DIVISION_BY_ZERO\<close>, and
  \<^verbatim>\<open>main\<close> prints the error and returns 0.
\<close>

theorem fault_exit_code_counterexample:
  "run_vm [[], [], []] (boot div_demo) fresh_io =
     Returned ((boot div_demo)\<lparr>pc := 5,
        memory := (memory (boot div_demo))(0xFFFF := 5, 0xFFFE := 0),
        error := VM_ERROR_DIVISION_BY_ZERO\<rparr>, fresh_io) \<and>
   kxn_main 2 True (Some div_demo) [[], [], []] =
     Returned (0, [Running_VM, VM_Error VM_ERROR_DIVISION_BY_ZERO])"
  apply (intro conjI)
  subgoal by (simp add: exec_defs io_defs div_demo_def div_op_def)
  subgoal by (simp add: kxn_main_def load_program_def init_vm_def exec_defs io_defs div_demo_def
      div_op_def)
  done

section \<open>Properties of the assembler\<close>







lemma emit_byte_tables [simp]:
  "labels (emit_byte st b) = labels st" "label_refs (emit_byte st b) = label_refs st"
  by (simp_all add: emit_byte_def)

lemma emit_word_tables [simp]:
  "labels (emit_word st w) = labels st" "label_refs (emit_word st w) = label_refs st"
  by (simp_all add: emit_word_def)


lemma emit_byte_operand_tables [simp]:
  "labels (emit_byte_operand rest st) = labels st"
  "label_refs (emit_byte_operand rest st) = label_refs st"
  by (simp_all add: emit_byte_operand_def split: option.splits)

lemma emit_address_operand_labels [simp]:
  "labels (emit_address_operand rest st) = labels st"
  by (simp add: emit_address_operand_def add_label_ref_def split: option.splits)


lemma assemble_instruction_labels [simp]:
  "labels (assemble_instruction token rest n st) = labels st"
  by (simp add: assemble_instruction_def)



lemma add_label_refs [simp]:
  "label_refs (add_label st name a) = label_refs st" "output_pos (add_label st name a) = output_pos st"
  by (simp_all add: add_label_def)















end
